theory Spec2Isabelle
  imports Main "HOL-Library.Sublist"
begin

section \<open>The patch translation layer of matplot2tikz (\<^verbatim>\<open>_patch.py\<close>)\<close>

text \<open>
  The module turns matplotlib patches and collections into PGFPlots text.  Its collaborators
  (the style resolver \<^verbatim>\<open>get_draw_options\<close>, the path emitter \<^verbatim>\<open>draw_path\<close>, the arrow style
  resolver, matplotlib's affine transforms and Python's float arithmetic and formatting) are
  not part of the module; they are parameters of the model, gathered in the record
  \<open>collab\<close>.  Python objects become records, \<^verbatim>\<open>isinstance\<close> dispatch becomes a case
  distinction on a datatype, the mutable run context \<^verbatim>\<open>data\<close> is passed and returned, and
  the exceptions of \<^verbatim>\<open>draw_patchcollection\<close> are values of a sum type.
\<close>

subsection \<open>Strings\<close>

text \<open>The backslash cannot be written inside a string literal; it is character 92.\<close>

definition bs :: string where
  "bs = [CHR 0x5C]"

text \<open>Python's \<^verbatim>\<open>sep.join(xs)\<close>.\<close>

fun join :: "string \<Rightarrow> string list \<Rightarrow> string" where
  "join sep [] = []"
| "join sep [x] = x"
| "join sep (x # y # ys) = x @ sep @ join sep (y # ys)"

subsection \<open>Data model\<close>

text \<open>
  The owning axes, as far as the module looks at them: \<open>get_legend\<close> is \<open>None\<close> when the
  axes have no legend and otherwise the texts of the legend
  (\<^verbatim>\<open>[txt.get_text() for txt in leg.get_texts()]\<close>); \<open>get_legend_handles_labels\<close> is the
  pair of lists that matplotlib returns, each handle given by the identities of its children.
\<close>

record axes =
  get_legend :: "string list option"
  get_legend_handles_labels :: "nat list list \<times> string list"

text \<open>What patches and collections share: a label, the owning axes, and an object identity.\<close>

record artist =
  get_label :: string
  axes :: axes
  ident :: nat

text \<open>
  The classes of patches that \<^verbatim>\<open>draw_patch\<close> tells apart, with the geometry each branch reads.
  \<open>Circle\<close> is a subclass of \<open>Ellipse\<close> in matplotlib; \<open>Polygon\<close> stands for every other
  patch, of which only the path is read.  Floats are values of the abstract type \<open>'n\<close>.
\<close>

datatype ('n, 'p) shape =
    FancyArrowPatch (posA_posB: "(('n \<times> 'n) \<times> ('n \<times> 'n)) option") (path_original: 'p)
  | Rectangle (get_x: 'n) (get_y: 'n) (get_width: 'n) (get_height: 'n)
  | Circle (circle_center: "'n \<times> 'n") (get_radius: 'n)
  | Ellipse (center: "'n \<times> 'n") (width: 'n) (height: 'n) (angle: 'n)
  | Polygon (get_path: 'p)

record ('a, 'n, 'p) patch = artist +
  get_edgecolor :: 'a
  get_facecolor :: 'a
  get_linestyle :: 'a
  get_linewidth :: 'a
  get_hatch :: "'a option"
  shape :: "('n, 'p) shape"

text \<open>
  A collection with its parallel arrays.  The getters carry matplotlib's plural aliases so
  that they do not clash with the getters of a patch; \<open>get_facecolors\<close> is the array after
  \<^verbatim>\<open>update_scalarmappable()\<close>.
\<close>

record ('a, 'n, 'p, 't) collection = artist +
  get_edgecolors :: "'a list"
  get_facecolors :: "'a list"
  get_linestyles :: "'a list"
  get_linewidths :: "'a list"
  get_transforms :: "'t list"
  get_offsets :: "('n \<times> 'n) list"
  get_paths :: "'p list"

datatype ('a, 'n, 'p, 't) artist_obj =
    PatchObj "('a, 'n, 'p) patch"
  | CollectionObj "('a, 'n, 'p, 't) collection"

text \<open>\<^verbatim>\<open>mypath.LineData\<close>: every attribute but the object may be \<open>None\<close>.\<close>

record ('a, 'n, 'p, 't) linedata =
  obj :: "('a, 'n, 'p, 't) artist_obj"
  ec :: "'a option"
  fc :: "'a option"
  ls :: "'a option"
  lw :: "'a option"
  hatch :: "'a option"

text \<open>The run context \<^verbatim>\<open>data\<close>: the keys that the module reads and writes.\<close>

record data =
  float_format :: string
  rectangle_legends :: "string set"

text \<open>
  The collaborators.  \<open>transformed c path t off\<close> is
  \<^verbatim>\<open>path.transformed(Affine2D(t).translate(*off))\<close>; \<open>format_float c ff x\<close> is the text of
  \<^verbatim>\<open>f"{x:{ff}}"\<close>; \<open>float_add\<close>, \<open>float_half\<close> and \<open>float_is_zero\<close> are Python's \<^verbatim>\<open>a + b\<close>,
  \<^verbatim>\<open>0.5 * a\<close> and \<^verbatim>\<open>a == 0\<close> on floats.  The collaborators read the run context; what they
  write to keys other than the two above is outside this model.
\<close>

record ('a, 'n, 'p, 't) collab =
  get_draw_options :: "data \<Rightarrow> ('a, 'n, 'p, 't) linedata \<Rightarrow> string list"
  draw_path :: "data \<Rightarrow> 'p \<Rightarrow> string list \<Rightarrow> string \<times> string list \<times> bool"
  get_arrow_style :: "('a, 'n, 'p) patch \<Rightarrow> data \<Rightarrow> string list"
  transformed :: "'p \<Rightarrow> 't \<Rightarrow> 'n \<times> 'n \<Rightarrow> 'p"
  format_float :: "string \<Rightarrow> 'n \<Rightarrow> string"
  float_add :: "'n \<Rightarrow> 'n \<Rightarrow> 'n"
  float_half :: "'n \<Rightarrow> 'n"
  float_is_zero :: "'n \<Rightarrow> bool"

datatype error = AttributeError | TypeError | UnboundLocalError

subsection \<open>The legend binder\<close>

text \<open>\<^verbatim>\<open>_is_in_legend\<close> (lines 50 to 55).\<close>

definition is_in_legend :: "'z artist_scheme \<Rightarrow> bool" where
  "is_in_legend ob =
     (let label = get_label ob;
          leg = get_legend (axes ob)
      in case leg of
           None \<Rightarrow> False
         | Some texts \<Rightarrow> label \<in> set texts)"

text \<open>\<^verbatim>\<open>_patch_legend\<close> (lines 58 to 67).\<close>

definition patch_legend :: "'z artist_scheme \<Rightarrow> string list \<Rightarrow> string \<Rightarrow> string" where
  "patch_legend ob draw_options legend_type =
     (if is_in_legend ob then
        (let do = (if draw_options \<noteq> [] then join '', '' (legend_type # draw_options) else '''');
             label = get_label ob
         in bs @ ''addlegendimage{'' @ do @ ''}\<newline>'' @
            bs @ ''addlegendentry{'' @ label @ ''}\<newline>\<newline>'')
      else '''')"

subsection \<open>Polygons, rectangles, ellipses, circles and arrows\<close>

text \<open>\<^verbatim>\<open>_draw_polygon\<close> (lines 112 to 117).\<close>

definition draw_polygon ::
  "('a, 'n, 'p, 't) collab \<Rightarrow> data \<Rightarrow> ('a, 'n, 'p) patch \<Rightarrow> 'p \<Rightarrow> string list \<Rightarrow> string" where
  "draw_polygon c data ob path draw_options =
     (case draw_path c data path draw_options of
        (content, _, is_area) \<Rightarrow>
          (let legend_type = (if is_area then ''area legend'' else ''line legend'')
           in content @ patch_legend ob draw_options legend_type))"

text \<open>
  The label of a rectangle after the lookup in the legend handles of its axes
  (lines 126 and 132 to 135): the one label found supersedes the rectangle's own.
\<close>

definition labels_found :: "'z artist_scheme \<Rightarrow> string list" where
  "labels_found ob =
     (case get_legend_handles_labels (axes ob) of
        (handles, labels) \<Rightarrow>
          map snd (filter (\<lambda>(h, label). ident ob \<in> set h) (zip handles labels)))"

definition rectangle_label :: "'z artist_scheme \<Rightarrow> string" where
  "rectangle_label ob =
     (if length (labels_found ob) = 1 then labels_found ob ! 0 else get_label ob)"

text \<open>The drawing command of a rectangle (lines 137 to 146).\<close>

definition rectangle_cmd ::
  "('a, 'n, 'p, 't) collab \<Rightarrow> data \<Rightarrow> 'n \<Rightarrow> 'n \<Rightarrow> 'n \<Rightarrow> 'n \<Rightarrow> string list \<Rightarrow> string" where
  "rectangle_cmd c data x y w h draw_options =
     (let left_lower_x = x;
          left_lower_y = y;
          ff = float_format data;
          do = join '','' draw_options;
          right_upper_x = float_add c left_lower_x w;
          right_upper_y = float_add c left_lower_y h
      in bs @ ''draw['' @ do @ ''] (axis cs:'' @ format_float c ff left_lower_x @ '','' @
         format_float c ff left_lower_y @ '') rectangle (axis cs:'' @
         format_float c ff right_upper_x @ '','' @ format_float c ff right_upper_y @
         '');\<newline>'')"

text \<open>The legend pair of a rectangle (lines 150 to 152).\<close>

definition rectangle_legend :: "string list \<Rightarrow> string \<Rightarrow> string" where
  "rectangle_legend draw_options label =
     (let draw_opts = join '','' draw_options
      in bs @ ''addlegendimage{ybar,ybar legend,'' @ draw_opts @ ''}\<newline>'' @
         bs @ ''addlegendentry{'' @ label @ ''}\<newline>\<newline>'')"

text \<open>
  \<^verbatim>\<open>_draw_rectangle\<close> (lines 120 to 153).  The early \<^verbatim>\<open>return []\<close> is the empty list, which
  is also the empty string here.
\<close>

definition draw_rectangle ::
  "('a, 'n, 'p, 't) collab \<Rightarrow> data \<Rightarrow> ('a, 'n, 'p) patch \<Rightarrow> 'n \<Rightarrow> 'n \<Rightarrow> 'n \<Rightarrow> 'n \<Rightarrow>
   string list \<Rightarrow> string \<times> data" where
  "draw_rectangle c data ob x y w h draw_options =
     (if get_label ob = '''' then ([], data)
      else
        (let label = rectangle_label ob;
             cont = rectangle_cmd c data x y w h draw_options
         in if label \<noteq> ''_nolegend_'' \<and> label \<notin> rectangle_legends data
            then (cont @ rectangle_legend draw_options label,
                  data\<lparr>rectangle_legends := insert label (rectangle_legends data)\<rparr>)
            else (cont, data)))"

text \<open>\<^verbatim>\<open>_draw_circle\<close> (lines 177 to 184).\<close>

definition draw_circle ::
  "('a, 'n, 'p, 't) collab \<Rightarrow> data \<Rightarrow> ('a, 'n, 'p) patch \<Rightarrow> 'n \<times> 'n \<Rightarrow> 'n \<Rightarrow> string list \<Rightarrow>
   string" where
  "draw_circle c data ob cen radius draw_options =
     (case cen of
        (x, y) \<Rightarrow>
          (let ff = float_format data;
               do = join '','' draw_options;
               content = bs @ ''draw['' @ do @ ''] (axis cs:'' @ format_float c ff x @ '','' @
                 format_float c ff y @ '') circle ('' @ format_float c ff radius @
                 '');\<newline>''
           in content @ patch_legend ob draw_options ''area legend''))"

text \<open>
  \<^verbatim>\<open>_draw_ellipse\<close> (lines 156 to 174) for an ellipse that is not a circle; the circle
  specialisation of line 158 is the \<open>Circle\<close> case of \<open>draw_patch\<close>.  The list
  \<^verbatim>\<open>draw_options\<close> is extended in place by \<^verbatim>\<open>append\<close>.
\<close>

definition rotate_around ::
  "('a, 'n, 'p, 't) collab \<Rightarrow> data \<Rightarrow> 'n \<times> 'n \<Rightarrow> 'n \<Rightarrow> string" where
  "rotate_around c data cen ang =
     (case cen of
        (x, y) \<Rightarrow>
          (let ff = float_format data
           in ''rotate around={'' @ format_float c ff ang @ '':(axis cs:'' @
              format_float c ff x @ '','' @ format_float c ff y @ '')}''))"

definition draw_ellipse ::
  "('a, 'n, 'p, 't) collab \<Rightarrow> data \<Rightarrow> ('a, 'n, 'p) patch \<Rightarrow> 'n \<times> 'n \<Rightarrow> 'n \<Rightarrow> 'n \<Rightarrow> 'n \<Rightarrow>
   string list \<Rightarrow> string" where
  "draw_ellipse c data ob cen w h ang draw_options0 =
     (case cen of
        (x, y) \<Rightarrow>
          (let ff = float_format data;
               draw_options =
                 (if \<not> float_is_zero c ang
                  then draw_options0 @ [rotate_around c data cen ang]
                  else draw_options0);
               do = join '','' draw_options;
               content = bs @ ''draw['' @ do @ ''] (axis cs:'' @ format_float c ff x @ '','' @
                 format_float c ff y @ '') ellipse ('' @ format_float c ff (float_half c w) @
                 '' and '' @ format_float c ff (float_half c h) @ '');\<newline>''
           in content @ patch_legend ob draw_options ''area legend''))"

text \<open>\<^verbatim>\<open>_draw_fancy_arrow\<close> (lines 187 to 204).\<close>

definition draw_fancy_arrow ::
  "('a, 'n, 'p, 't) collab \<Rightarrow> data \<Rightarrow> ('a, 'n, 'p) patch \<Rightarrow>
   (('n \<times> 'n) \<times> ('n \<times> 'n)) option \<Rightarrow> 'p \<Rightarrow> string list \<Rightarrow> string" where
  "draw_fancy_arrow c data ob pos path draw_options =
     (let style = get_arrow_style c ob data;
          ff = float_format data;
          content =
            (case pos of
               Some (pos_a, pos_b) \<Rightarrow>
                 (let do = join '','' style
                  in bs @ ''draw['' @ do @ ''] (axis cs:'' @ format_float c ff (fst pos_a) @
                     '','' @ format_float c ff (snd pos_a) @ '') -- (axis cs:'' @
                     format_float c ff (fst pos_b) @ '','' @ format_float c ff (snd pos_b) @
                     '');\<newline>'')
             | None \<Rightarrow> fst (draw_path c data path (draw_options @ style)))
      in content @ patch_legend ob draw_options ''line legend'')"

subsection \<open>The shape dispatcher\<close>

text \<open>
  \<^verbatim>\<open>draw_patch\<close> (lines 11 to 47).  The arrow is tested first and resolved without a face
  colour (lines 14 to 24); every other patch is resolved with both colours (lines 28 to 38).
  The context is returned because \<^verbatim>\<open>_draw_rectangle\<close> writes to it.
\<close>

definition arrow_draw_options ::
  "('a, 'n, 'p, 't) collab \<Rightarrow> data \<Rightarrow> ('a, 'n, 'p) patch \<Rightarrow> string list" where
  "arrow_draw_options c data ob =
     get_draw_options c data
       \<lparr>obj = PatchObj ob, ec = Some (get_edgecolor ob), fc = None,
        ls = Some (get_linestyle ob), lw = Some (get_linewidth ob), hatch = get_hatch ob\<rparr>"

definition patch_draw_options ::
  "('a, 'n, 'p, 't) collab \<Rightarrow> data \<Rightarrow> ('a, 'n, 'p) patch \<Rightarrow> string list" where
  "patch_draw_options c data ob =
     get_draw_options c data
       \<lparr>obj = PatchObj ob, ec = Some (get_edgecolor ob), fc = Some (get_facecolor ob),
        ls = Some (get_linestyle ob), lw = Some (get_linewidth ob), hatch = get_hatch ob\<rparr>"

definition draw_patch ::
  "('a, 'n, 'p, 't) collab \<Rightarrow> data \<Rightarrow> ('a, 'n, 'p) patch \<Rightarrow> string \<times> data" where
  "draw_patch c data ob =
     (case shape ob of
        FancyArrowPatch pos path \<Rightarrow>
          (draw_fancy_arrow c data ob pos path (arrow_draw_options c data ob), data)
      | Rectangle x y w h \<Rightarrow> draw_rectangle c data ob x y w h (patch_draw_options c data ob)
      | Circle cen r \<Rightarrow> (draw_circle c data ob cen r (patch_draw_options c data ob), data)
      | Ellipse cen w h ang \<Rightarrow>
          (draw_ellipse c data ob cen w h ang (patch_draw_options c data ob), data)
      | Polygon path \<Rightarrow> (draw_polygon c data ob path (patch_draw_options c data ob), data))"

subsection \<open>The collection batcher\<close>

text \<open>
  \<^verbatim>\<open>zip_modulo\<close> (lines 70 to 73) at the seven sequences of its one call.  The elements of
  a Python sequence may be \<open>None\<close>, so the sequences are lists of options; \<open>nth_modulo\<close> is
  the element expression \<^verbatim>\<open>seq[i % len(seq)] if len(seq) != 0 else None\<close>.
\<close>

definition nth_modulo :: "'x option list \<Rightarrow> nat \<Rightarrow> 'x option" where
  "nth_modulo seq i = (if length seq \<noteq> 0 then seq ! (i mod length seq) else None)"

definition zip_modulo ::
  "'p option list \<Rightarrow> 'a option list \<Rightarrow> 'b option list \<Rightarrow> 'c option list \<Rightarrow> 'd option list \<Rightarrow>
   't option list \<Rightarrow> 'o option list \<Rightarrow>
   ('p option \<times> 'a option \<times> 'b option \<times> 'c option \<times> 'd option \<times> 't option \<times> 'o option) list"
  where
  "zip_modulo s1 s2 s3 s4 s5 s6 s7 =
     (let n = Max (set [length s1, length s2, length s3, length s4, length s5, length s6,
                        length s7])
      in map (\<lambda>i. (nth_modulo s1 i, nth_modulo s2 i, nth_modulo s3 i, nth_modulo s4 i,
                    nth_modulo s5 i, nth_modulo s6 i, nth_modulo s7 i)) [0..<n])"

text \<open>\<^verbatim>\<open>ensure_list\<close> (lines 83 and 84).\<close>

definition ensure_list :: "'x list \<Rightarrow> 'x option list" where
  "ensure_list x = (if length x = 0 then [None] else map Some x)"

text \<open>
  The sequence that the loop of \<^verbatim>\<open>draw_patchcollection\<close> runs over (lines 86 to 94): the
  style arrays pass through \<^verbatim>\<open>ensure_list\<close>, the offsets and the paths do not.
\<close>

definition collection_members ::
  "('a, 'n, 'p, 't) collection \<Rightarrow>
   ('p option \<times> 'a option \<times> 'a option \<times> 'a option \<times> 'a option \<times> 't option \<times>
    ('n \<times> 'n) option) list" where
  "collection_members ob =
     (let ecs = ensure_list (get_edgecolors ob);
          fcs = ensure_list (get_facecolors ob);
          lss = ensure_list (get_linestyles ob);
          ws = ensure_list (get_linewidths ob);
          ts = ensure_list (get_transforms ob);
          offs = map Some (get_offsets ob);
          paths = map Some (get_paths ob)
      in zip_modulo paths ecs fcs lss ws ts offs)"

text \<open>
  The body of the loop (lines 95 to 102).  With a transform, \<^verbatim>\<open>path.transformed\<close> is looked
  up first and fails on \<open>None\<close>, then \<^verbatim>\<open>*off\<close> fails on \<open>None\<close>.  Without a transform the
  path goes to the path emitter as it is; the emitter reads the segments of a path, so a
  \<open>None\<close> in its place is an error as well.
\<close>

definition draw_member ::
  "('a, 'n, 'p, 't) collab \<Rightarrow> data \<Rightarrow> ('a, 'n, 'p, 't) collection \<Rightarrow>
   ('p option \<times> 'a option \<times> 'a option \<times> 'a option \<times> 'a option \<times> 't option \<times>
    ('n \<times> 'n) option) \<Rightarrow> error + (string \<times> string list \<times> bool)" where
  "draw_member c data ob m =
     (case m of
        (path, ec1, fc1, ls1, w, t, off) \<Rightarrow>
          (let draw_options = get_draw_options c data
                 \<lparr>obj = CollectionObj ob, ec = ec1, fc = fc1, ls = ls1, lw = w, hatch = None\<rparr>
           in case t of
                Some tr \<Rightarrow>
                  (case path of
                     None \<Rightarrow> Inl AttributeError
                   | Some p \<Rightarrow>
                       (case off of
                          None \<Rightarrow> Inl TypeError
                        | Some xy \<Rightarrow> Inr (draw_path c data (transformed c p tr xy) draw_options)))
              | None \<Rightarrow>
                  (case path of
                     None \<Rightarrow> Inl AttributeError
                   | Some p \<Rightarrow> Inr (draw_path c data p draw_options))))"

text \<open>
  The loop (lines 94 to 103): \<open>content\<close> grows by one block per member, and \<open>vars\<close> holds
  the variables \<^verbatim>\<open>draw_options\<close> and \<^verbatim>\<open>is_area\<close>, unbound before the first member.
\<close>

fun collection_loop ::
  "('a, 'n, 'p, 't) collab \<Rightarrow> data \<Rightarrow> ('a, 'n, 'p, 't) collection \<Rightarrow>
   ('p option \<times> 'a option \<times> 'a option \<times> 'a option \<times> 'a option \<times> 't option \<times>
    ('n \<times> 'n) option) list \<Rightarrow> string list \<Rightarrow> (string list \<times> bool) option \<Rightarrow>
   error + (string list \<times> (string list \<times> bool) option)" where
  "collection_loop c data ob [] content vars = Inr (content, vars)"
| "collection_loop c data ob (m # ms) content vars =
     (case draw_member c data ob m of
        Inl e \<Rightarrow> Inl e
      | Inr (cont, draw_options, is_area) \<Rightarrow>
          collection_loop c data ob ms (content @ [cont]) (Some (draw_options, is_area)))"

text \<open>
  The legend block that closes a collection (lines 105 and 106); \<^verbatim>\<open>x or "\n"\<close> is the
  newline when \<open>x\<close> is the empty string.
\<close>

definition collection_legend ::
  "('a, 'n, 'p, 't) collection \<Rightarrow> string list \<Rightarrow> bool \<Rightarrow> string" where
  "collection_legend ob draw_options is_area =
     (let legend_type = (if is_area then ''area legend'' else ''line legend'');
          legend = patch_legend ob draw_options legend_type
      in if legend \<noteq> '''' then legend else ''\<newline>'')"

text \<open>
  \<^verbatim>\<open>draw_patchcollection\<close> (lines 76 to 109).  The call of \<^verbatim>\<open>update_scalarmappable\<close>
  (line 81) recomputes the face colours before they are read: \<open>get_facecolors\<close> is the array
  after that call.  An exception of a member ends the function without a result.
\<close>

definition draw_patchcollection ::
  "('a, 'n, 'p, 't) collab \<Rightarrow> data \<Rightarrow> ('a, 'n, 'p, 't) collection \<Rightarrow> error + string list" where
  "draw_patchcollection c data ob =
     (case collection_loop c data ob (collection_members ob) [] None of
        Inl e \<Rightarrow> Inl e
      | Inr (content, None) \<Rightarrow> Inl UnboundLocalError
      | Inr (content, Some (draw_options, is_area)) \<Rightarrow>
          Inr (content @ [collection_legend ob draw_options is_area]))"

text \<open>
  The pairing rule in the words of the specification: at step \<open>i\<close> a sequence contributes its
  element \<open>i mod length\<close>, and a sequence of length zero contributes the unset placeholder.
\<close>

definition cyclic :: "'x list \<Rightarrow> nat \<Rightarrow> 'x option" where
  "cyclic xs i = (if xs = [] then None else Some (xs ! (i mod length xs)))"

subsection \<open>A conversion run\<close>

text \<open>
  Modelled from the spec: the caller of \<^verbatim>\<open>draw_patch\<close> and \<^verbatim>\<open>draw_patchcollection\<close> is not
  among the sources.  A run hands the artists of a figure, one after the other, to the two
  functions with one run context; it collects the text of each artist and stops at the first
  exception.
\<close>

fun run ::
  "('a, 'n, 'p, 't) collab \<Rightarrow> ('a, 'n, 'p, 't) artist_obj list \<Rightarrow> data \<Rightarrow>
   error + (string list list \<times> data)" where
  "run c [] data = Inr ([], data)"
| "run c (PatchObj p # rest) data =
     (case draw_patch c data p of
        (out, data1) \<Rightarrow>
          (case run c rest data1 of
             Inl e \<Rightarrow> Inl e
           | Inr (outs, data2) \<Rightarrow> Inr ([out] # outs, data2)))"
| "run c (CollectionObj k # rest) data =
     (case draw_patchcollection c data k of
        Inl e \<Rightarrow> Inl e
      | Inr content \<Rightarrow>
          (case run c rest data of
             Inl e \<Rightarrow> Inl e
           | Inr (outs, data2) \<Rightarrow> Inr (content # outs, data2)))"

text \<open>
  The labels of the \<^verbatim>\<open>\addlegendentry\<close> commands of an emitted text (read up to the closing
  brace), and those of a whole run.  They state what the text of a run shows to its reader.
\<close>

fun entry_labels :: "string \<Rightarrow> string list" where
  "entry_labels [] = []"
| "entry_labels (ch # rest) =
     (if prefix (bs @ ''addlegendentry{'') (ch # rest)
      then takeWhile (\<lambda>x. x \<noteq> CHR ''}'') (drop 16 (ch # rest)) # entry_labels rest
      else entry_labels rest)"

definition run_entry_labels ::
  "('a, 'n, 'p, 't) collab \<Rightarrow> ('a, 'n, 'p, 't) artist_obj list \<Rightarrow> data \<Rightarrow> string list" where
  "run_entry_labels c items data =
     (case run c items data of
        Inl e \<Rightarrow> []
      | Inr (outs, data1) \<Rightarrow> concat (map entry_labels (concat outs)))"

text \<open>
  The legend block in the words of the specification: the legend type, a comma, and the
  comma-joined style directives inside \<^verbatim>\<open>\addlegendimage\<close>, then the entry and a blank line.
\<close>

definition legend_block_spec :: "string \<Rightarrow> string list \<Rightarrow> string \<Rightarrow> string" where
  "legend_block_spec legend_type draw_options label =
     bs @ ''addlegendimage{'' @ legend_type @ '', '' @ join '', '' draw_options @ ''}\<newline>'' @
     bs @ ''addlegendentry{'' @ label @ ''}\<newline>\<newline>''"

subsection \<open>Example collaborators\<close>

text \<open>
  For the concrete instances below: floats are integers written with one digit, paths and
  transforms are strings, the style resolver gives one directive, and the path emitter writes
  the path and classifies it as an area when its name is \<open>''area''\<close>.
\<close>

definition digit :: "int \<Rightarrow> string" where
  "digit n = [''0123456789'' ! nat (n mod 10)]"

definition ex_collab :: "(string, int, string, string) collab" where
  "ex_collab =
     \<lparr>get_draw_options = (\<lambda>d l. [''draw=black'']),
      draw_path = (\<lambda>d p opts. (''path '' @ p @ '';\<newline>'', opts, p = ''area'')),
      get_arrow_style = (\<lambda>p d. [''->'']),
      transformed = (\<lambda>p t off. p @ ''*'' @ t),
      format_float = (\<lambda>ff n. digit n),
      float_add = (\<lambda>a b. a + b),
      float_half = (\<lambda>a. a div 2),
      float_is_zero = (\<lambda>a. a = 0)\<rparr>"

text \<open>The same collaborators with a style resolver that gives no directive.\<close>

definition ex_collab_plain :: "(string, int, string, string) collab" where
  "ex_collab_plain = ex_collab\<lparr>get_draw_options := (\<lambda>d l. [])\<rparr>"

definition ex_data :: data where
  "ex_data = \<lparr>float_format = ''.8g'', rectangle_legends = {}\<rparr>"

text \<open>
  Example artists.  The axes have a legend with the one text \<open>''a''\<close> and one legend handle,
  labelled \<open>''bars''\<close>, whose children are the rectangles 1 and 2.
\<close>

definition ex_axes :: axes where
  "ex_axes = \<lparr>get_legend = Some [''a''], get_legend_handles_labels = ([[1, 2]], [''bars''])\<rparr>"

definition ex_patch :: "string \<Rightarrow> nat \<Rightarrow> (int, string) shape \<Rightarrow> (string, int, string) patch" where
  "ex_patch label i sh =
     \<lparr>get_label = label, axes = ex_axes, ident = i, get_edgecolor = ''k'', get_facecolor = ''w'',
      get_linestyle = ''-'', get_linewidth = ''1'', get_hatch = None, shape = sh\<rparr>"

definition ex_rect1 :: "(string, int, string) patch" where
  "ex_rect1 = ex_patch ''_nolegend_'' 1 (Rectangle 1 2 3 4)"

definition ex_rect2 :: "(string, int, string) patch" where
  "ex_rect2 = ex_patch ''_nolegend_'' 2 (Rectangle 4 2 3 5)"

definition ex_rect_b :: "(string, int, string) patch" where
  "ex_rect_b = ex_patch ''b'' 5 (Rectangle 0 0 1 1)"

definition ex_rect_empty :: "(string, int, string) patch" where
  "ex_rect_empty = ex_patch '''' 9 (Rectangle 0 0 9 9)"

text \<open>The first bar of the chart with the empty string as its own label.\<close>

definition ex_rect_unlabelled :: "(string, int, string) patch" where
  "ex_rect_unlabelled = ex_patch '''' 1 (Rectangle 1 2 3 4)"

definition ex_circle :: "(string, int, string) patch" where
  "ex_circle = ex_patch ''a'' 3 (Circle (1, 2) 3)"

definition ex_circle2 :: "(string, int, string) patch" where
  "ex_circle2 = ex_patch ''a'' 4 (Circle (4, 5) 1)"

definition ex_ellipse :: "(string, int, string) patch" where
  "ex_ellipse = ex_patch ''e'' 6 (Ellipse (1, 2) 4 2 3)"

definition ex_ellipse0 :: "(string, int, string) patch" where
  "ex_ellipse0 = ex_patch ''e'' 7 (Ellipse (1, 2) 4 2 0)"

definition ex_arrow :: "(string, int, string) patch" where
  "ex_arrow = ex_patch ''a'' 8 (FancyArrowPatch (Some ((1, 2), (3, 4))) ''arc'')"

definition ex_arrow_path :: "(string, int, string) patch" where
  "ex_arrow_path = ex_patch ''a'' 10 (FancyArrowPatch None ''arc'')"

definition ex_collection ::
  "string list \<Rightarrow> (int \<times> int) list \<Rightarrow> string list \<Rightarrow> (string, int, string, string) collection"
  where
  "ex_collection ts offs paths =
     \<lparr>get_label = ''a'', axes = ex_axes, ident = 11, get_edgecolors = [''k''],
      get_facecolors = [], get_linestyles = [''-''], get_linewidths = [''1''],
      get_transforms = ts, get_offsets = offs, get_paths = paths\<rparr>"

text \<open>One marker path at three offsets, no transforms.\<close>

definition ex_scatter :: "(string, int, string, string) collection" where
  "ex_scatter = ex_collection [] [(1, 1), (2, 2), (3, 3)] [''area'']"

text \<open>Two paths, one transform, one offset.\<close>

definition ex_transformed :: "(string, int, string, string) collection" where
  "ex_transformed = ex_collection [''T''] [(1, 2)] [''area'', ''line'']"

text \<open>A transform and no offset.\<close>

definition ex_no_offsets :: "(string, int, string, string) collection" where
  "ex_no_offsets = ex_collection [''T''] [] [''line'']"

text \<open>Two paths without transforms and offsets: an area, then a line.\<close>

definition ex_area_line :: "(string, int, string, string) collection" where
  "ex_area_line = ex_collection [] [] [''area'', ''line'']"

text \<open>One path; the label is not among the texts of the legend.\<close>

definition ex_unlisted :: "(string, int, string, string) collection" where
  "ex_unlisted = (ex_collection [] [] [''area''])\<lparr>get_label := ''pts''\<rparr>"

section \<open>Properties\<close>

lemmas ex_defs = ex_collab_def ex_data_def ex_axes_def ex_patch_def ex_rect1_def ex_rect2_def
  ex_rect_b_def ex_rect_empty_def ex_circle_def ex_circle2_def ex_ellipse_def ex_ellipse0_def
  ex_arrow_def ex_arrow_path_def ex_collection_def ex_scatter_def ex_transformed_def
  ex_no_offsets_def ex_collab_plain_def digit_def ex_rect_unlabelled_def
  ex_area_line_def ex_unlisted_def

lemmas patch_defs = draw_patch_def draw_rectangle_def rectangle_cmd_def rectangle_legend_def
  rectangle_label_def labels_found_def draw_circle_def draw_ellipse_def rotate_around_def
  draw_fancy_arrow_def draw_polygon_def patch_legend_def is_in_legend_def
  patch_draw_options_def arrow_draw_options_def bs_def

subsection \<open>The run-scoped set only grows\<close>

lemma draw_rectangle_mono:
  "draw_rectangle c data ob x y w h opts = (out, data1) \<Longrightarrow>
   rectangle_legends data \<subseteq> rectangle_legends data1"
  by (auto simp: draw_rectangle_def Let_def split: if_splits)

lemma draw_patch_mono:
  "draw_patch c data ob = (out, data1) \<Longrightarrow> rectangle_legends data \<subseteq> rectangle_legends data1"
  by (cases "shape ob") (auto simp: draw_patch_def dest: draw_rectangle_mono)

lemma run_mono:
  "run c items data = Inr (outs, data1) \<Longrightarrow> rectangle_legends data \<subseteq> rectangle_legends data1"
proof (induction c items data arbitrary: outs data1 rule: run.induct)
  case (1 c data)
  then show ?case by simp
next
  case (2 c p rest data)
  then show ?case
    by (auto split: prod.splits sum.splits dest!: draw_patch_mono)
next
  case (3 c k rest data)
  then show ?case
    by (auto split: prod.splits sum.splits)
qed

lemma run_append:
  "run c (xs @ ys) data =
     (case run c xs data of
        Inl e \<Rightarrow> Inl e
      | Inr (o1, data1) \<Rightarrow>
          (case run c ys data1 of
             Inl e \<Rightarrow> Inl e
           | Inr (o2, data2) \<Rightarrow> Inr (o1 @ o2, data2)))"
proof (induction c xs data rule: run.induct)
  case (1 c data)
  then show ?case by (simp split: sum.splits)
next
  case (2 c p rest data)
  then show ?case by (simp split: prod.splits sum.splits)
next
  case (3 c k rest data)
  then show ?case by (simp split: prod.splits sum.splits)
qed

subsection \<open>Rectangles\<close>

text \<open>
  C3.  A rectangle whose label is the empty string gives the empty output: no drawing
  command, no legend image, no legend entry; and the run-scoped set of legend labels is
  returned as it was.
\<close>

theorem empty_label_rectangle_skipped:
  "shape ob = Rectangle x y w h \<Longrightarrow> get_label ob = '''' \<Longrightarrow> draw_patch c data ob = ([], data)"
  by (simp add: draw_patch_def draw_rectangle_def)

theorem empty_label_rectangle_skipped_witness:
  "shape ex_rect_empty = Rectangle 0 0 9 9 \<and> get_label ex_rect_empty = '''' \<and>
   draw_patch ex_collab ex_data ex_rect_empty = ([], ex_data)"
proof -
  have s: "shape ex_rect_empty = Rectangle 0 0 9 9"
    by (simp add: ex_defs)
  have l: "get_label ex_rect_empty = ''''"
    by (simp add: ex_defs)
  from empty_label_rectangle_skipped [OF s l] s l show ?thesis
    by simp
qed

text \<open>
  C1.  As stated the claim fails for a rectangle whose own label is the empty string:
  \<^verbatim>\<open>_draw_rectangle\<close> returns before the lookup in the legend handles (lines 126 to 128).
  The bar below has the empty label, the lookup would give it the label \<open>''bars''\<close>, which is
  neither \<open>''_nolegend_''\<close> nor in the run-scoped set, and yet no legend pair is emitted and
  the set stays as it was.
\<close>

theorem rectangle_unlabelled_counterexample:
  "shape ex_rect_unlabelled = Rectangle 1 2 3 4 \<and>
   rectangle_label ex_rect_unlabelled = ''bars'' \<and>
   rectangle_label ex_rect_unlabelled \<noteq> ''_nolegend_'' \<and>
   rectangle_label ex_rect_unlabelled \<notin> rectangle_legends ex_data \<and>
   draw_patch ex_collab ex_data ex_rect_unlabelled = ([], ex_data) \<and>
   entry_labels (fst (draw_patch ex_collab ex_data ex_rect_unlabelled)) = [] \<and>
   rectangle_label ex_rect_unlabelled \<notin>
     rectangle_legends (snd (draw_patch ex_collab ex_data ex_rect_unlabelled))"
  by (simp add: patch_defs ex_defs)

text \<open>
  C1, amended.  A rectangle whose own label is not the empty string and whose label, after
  the lookup in the legend handles, is neither \<open>''_nolegend_''\<close> nor in the run-scoped set,
  gives its drawing command followed by exactly one legend pair, and its label enters the
  set.  A rectangle with a non-empty own label and the same label after the lookup that comes
  later in the run, whatever was converted in between, gives its drawing command and nothing
  more, and leaves the set as it is.
\<close>

theorem rectangle_legend_once:
  assumes "shape r = Rectangle x y w h"
    and "get_label r \<noteq> ''''"
    and "rectangle_label r \<noteq> ''_nolegend_''"
    and "rectangle_label r \<notin> rectangle_legends data"
    and "draw_patch c data r = (out, data1)"
    and "run c between data1 = Inr (outs, data2)"
    and "shape r' = Rectangle x' y' w' h'"
    and "get_label r' \<noteq> ''''"
    and "rectangle_label r' = rectangle_label r"
  shows "out = rectangle_cmd c data x y w h (patch_draw_options c data r) @
               rectangle_legend (patch_draw_options c data r) (rectangle_label r)
       \<and> data1 = data\<lparr>rectangle_legends := insert (rectangle_label r) (rectangle_legends data)\<rparr>
       \<and> draw_patch c data2 r' =
           (rectangle_cmd c data2 x' y' w' h' (patch_draw_options c data2 r'), data2)"
proof -
  have "draw_patch c data r =
      (rectangle_cmd c data x y w h (patch_draw_options c data r) @
         rectangle_legend (patch_draw_options c data r) (rectangle_label r),
       data\<lparr>rectangle_legends := insert (rectangle_label r) (rectangle_legends data)\<rparr>)"
    using assms(1-4) by (simp add: draw_patch_def draw_rectangle_def Let_def)
  with assms(5)
  have o: "out = rectangle_cmd c data x y w h (patch_draw_options c data r) @
               rectangle_legend (patch_draw_options c data r) (rectangle_label r)"
    and d: "data1 = data\<lparr>rectangle_legends := insert (rectangle_label r) (rectangle_legends data)\<rparr>"
    by simp_all
  from d have "rectangle_label r \<in> rectangle_legends data1"
    by simp
  with run_mono [OF assms(6)] assms(9) have "rectangle_label r' \<in> rectangle_legends data2"
    by auto
  with assms(7,8) have "draw_patch c data2 r' =
      (rectangle_cmd c data2 x' y' w' h' (patch_draw_options c data2 r'), data2)"
    by (simp add: draw_patch_def draw_rectangle_def Let_def)
  with o d show ?thesis
    by simp
qed

text \<open>
  The instance: two bars of one bar chart with a circle converted between them.  The first
  bar carries the legend pair of the label \<open>''bars''\<close>, the second only its drawing command.
\<close>

theorem rectangle_legend_once_witness:
  "shape ex_rect1 = Rectangle 1 2 3 4 \<and> get_label ex_rect1 \<noteq> '''' \<and>
   rectangle_label ex_rect1 \<noteq> ''_nolegend_'' \<and>
   rectangle_label ex_rect1 \<notin> rectangle_legends ex_data \<and>
   shape ex_rect2 = Rectangle 4 2 3 5 \<and> get_label ex_rect2 \<noteq> '''' \<and>
   rectangle_label ex_rect2 = rectangle_label ex_rect1 \<and>
   draw_patch ex_collab ex_data ex_rect1 =
     (bs @ ''draw[draw=black] (axis cs:1,2) rectangle (axis cs:4,6);\<newline>'' @
      bs @ ''addlegendimage{ybar,ybar legend,draw=black}\<newline>'' @
      bs @ ''addlegendentry{bars}\<newline>\<newline>'',
      ex_data\<lparr>rectangle_legends := {''bars''}\<rparr>) \<and>
   draw_patch ex_collab (ex_data\<lparr>rectangle_legends := {''bars''}\<rparr>) ex_rect2 =
     (bs @ ''draw[draw=black] (axis cs:4,2) rectangle (axis cs:7,7);\<newline>'',
      ex_data\<lparr>rectangle_legends := {''bars''}\<rparr>)"
proof -
  let ?d1 = "ex_data\<lparr>rectangle_legends := {''bars''}\<rparr>"
  let ?out = "bs @ ''draw[draw=black] (axis cs:1,2) rectangle (axis cs:4,6);\<newline>'' @
      bs @ ''addlegendimage{ybar,ybar legend,draw=black}\<newline>'' @
      bs @ ''addlegendentry{bars}\<newline>\<newline>''"
  have h1: "shape ex_rect1 = Rectangle 1 2 3 4"
    by (simp add: ex_defs)
  have h2: "get_label ex_rect1 \<noteq> ''''"
    by (simp add: ex_defs)
  have h3: "rectangle_label ex_rect1 \<noteq> ''_nolegend_''"
    by (simp add: rectangle_label_def labels_found_def ex_defs)
  have h4: "rectangle_label ex_rect1 \<notin> rectangle_legends ex_data"
    by (simp add: ex_defs)
  have h5: "draw_patch ex_collab ex_data ex_rect1 = (?out, ?d1)"
    by (simp add: patch_defs ex_defs)
  have h6: "run ex_collab [PatchObj ex_circle] ?d1 =
      Inr ([[fst (draw_patch ex_collab ?d1 ex_circle)]], ?d1)"
    by (simp add: patch_defs ex_defs)
  have h7: "shape ex_rect2 = Rectangle 4 2 3 5"
    by (simp add: ex_defs)
  have h8: "get_label ex_rect2 \<noteq> ''''"
    by (simp add: ex_defs)
  have h9: "rectangle_label ex_rect2 = rectangle_label ex_rect1"
    by (simp add: rectangle_label_def labels_found_def ex_defs)
  have cmd: "rectangle_cmd ex_collab ?d1 4 2 3 5 (patch_draw_options ex_collab ?d1 ex_rect2) =
      bs @ ''draw[draw=black] (axis cs:4,2) rectangle (axis cs:7,7);\<newline>''"
    by (simp add: patch_defs ex_defs)
  from rectangle_legend_once [OF h1 h2 h3 h4 h5 h6 h7 h8 h9]
  have "draw_patch ex_collab ?d1 ex_rect2 =
      (rectangle_cmd ex_collab ?d1 4 2 3 5 (patch_draw_options ex_collab ?d1 ex_rect2), ?d1)"
    by blast
  then have later: "draw_patch ex_collab ?d1 ex_rect2 =
      (bs @ ''draw[draw=black] (axis cs:4,2) rectangle (axis cs:7,7);\<newline>'', ?d1)"
    by (simp only: cmd)
  from h1 h2 h3 h4 h5 h7 h8 h9 later show ?thesis
    by blast
qed

text \<open>
  C8.  As stated the claim fails: the legend block of circles, ellipses, polygons, arrows and
  collections is emitted whenever the label is among the texts of the legend, with no record
  of the labels already emitted.  Two circles with the label \<open>''a''\<close> in one run each emit
  \<^verbatim>\<open>\addlegendentry{a}\<close>.
\<close>

theorem legend_entries_repeat_counterexample:
  "run_entry_labels ex_collab [PatchObj ex_circle, PatchObj ex_circle2] ex_data = [''a'', ''a'']
   \<and> \<not> distinct (run_entry_labels ex_collab [PatchObj ex_circle, PatchObj ex_circle2] ex_data)"
  by (simp add: run_entry_labels_def patch_defs ex_defs)

lemma rectangle_cmd_not_empty: "rectangle_cmd c data x y w h opts \<noteq> []"
  by (simp add: rectangle_cmd_def bs_def Let_def)

lemma rectangle_legend_inject:
  "rectangle_legend opts l = rectangle_legend opts l' \<Longrightarrow> l = l'"
  by (simp add: rectangle_legend_def Let_def)

lemma rectangle_legend_not_empty: "rectangle_legend opts l \<noteq> []"
  by (simp add: rectangle_legend_def bs_def Let_def)

lemma draw_rectangle_emits:
  assumes "draw_rectangle c data ob x y w h opts =
           (rectangle_cmd c data x y w h opts @ rectangle_legend opts l, data1)"
  shows "l = rectangle_label ob \<and> l \<notin> rectangle_legends data \<and> l \<in> rectangle_legends data1"
proof (cases "get_label ob = ''''")
  case True
  with assms show ?thesis
    by (simp add: draw_rectangle_def rectangle_cmd_not_empty)
next
  case False
  show ?thesis
  proof (cases "rectangle_label ob \<noteq> ''_nolegend_'' \<and> rectangle_label ob \<notin> rectangle_legends data")
    case True
    with assms False
    have "rectangle_legend opts (rectangle_label ob) = rectangle_legend opts l"
      and "data1 = data\<lparr>rectangle_legends := insert (rectangle_label ob) (rectangle_legends data)\<rparr>"
      by (auto simp: draw_rectangle_def Let_def)
    with True show ?thesis
      by (auto dest: rectangle_legend_inject)
  next
    case no: False
    with assms False have "rectangle_legend opts l = []"
      by (auto simp: draw_rectangle_def Let_def split: if_splits)
    then show ?thesis
      by (simp add: rectangle_legend_not_empty)
  qed
qed

text \<open>
  C8, amended.  Within one run the legend pairs of rectangles carry pairwise different
  labels: when a rectangle emits the legend pair of a label \<open>l1\<close> and a rectangle later in the
  same run emits the legend pair of a label \<open>l2\<close>, then \<open>l1\<close> and \<open>l2\<close> differ.  (The other shapes
  and the collections are not deduplicated.)
\<close>

theorem rectangle_legend_entries_unique:
  assumes "shape r1 = Rectangle x1 y1 w1 h1"
    and "shape r2 = Rectangle x2 y2 w2 h2"
    and "run c pre data0 = Inr (outs0, data1)"
    and "draw_patch c data1 r1 = (out1, data2)"
    and "run c between data2 = Inr (outs2, data3)"
    and "draw_patch c data3 r2 = (out2, data4)"
    and "out1 = rectangle_cmd c data1 x1 y1 w1 h1 (patch_draw_options c data1 r1) @
                rectangle_legend (patch_draw_options c data1 r1) l1"
    and "out2 = rectangle_cmd c data3 x2 y2 w2 h2 (patch_draw_options c data3 r2) @
                rectangle_legend (patch_draw_options c data3 r2) l2"
  shows "l1 \<noteq> l2 \<and>
         run c (pre @ PatchObj r1 # between @ [PatchObj r2]) data0 =
           Inr (outs0 @ [out1] # outs2 @ [[out2]], data4)"
proof -
  from assms(1,4,7) have "l1 \<in> rectangle_legends data2"
    by (auto simp: draw_patch_def dest: draw_rectangle_emits)
  with run_mono [OF assms(5)] have "l1 \<in> rectangle_legends data3"
    by auto
  moreover from assms(2,6,8) have "l2 \<notin> rectangle_legends data3"
    by (auto simp: draw_patch_def dest: draw_rectangle_emits)
  ultimately have "l1 \<noteq> l2"
    by auto
  moreover have "run c (pre @ PatchObj r1 # between @ [PatchObj r2]) data0 =
           Inr (outs0 @ [out1] # outs2 @ [[out2]], data4)"
    using assms(3-6) by (simp add: run_append)
  ultimately show ?thesis
    by simp
qed

text \<open>
  The instance: the bar labelled \<open>''bars''\<close>, a circle, and a rectangle labelled \<open>''b''\<close>.
\<close>

theorem rectangle_legend_entries_unique_witness:
  "draw_patch ex_collab ex_data ex_rect1 =
     (rectangle_cmd ex_collab ex_data 1 2 3 4 (patch_draw_options ex_collab ex_data ex_rect1) @
      rectangle_legend (patch_draw_options ex_collab ex_data ex_rect1) ''bars'',
      ex_data\<lparr>rectangle_legends := {''bars''}\<rparr>) \<and>
   draw_patch ex_collab (ex_data\<lparr>rectangle_legends := {''bars''}\<rparr>) ex_rect_b =
     (rectangle_cmd ex_collab (ex_data\<lparr>rectangle_legends := {''bars''}\<rparr>) 0 0 1 1
        (patch_draw_options ex_collab (ex_data\<lparr>rectangle_legends := {''bars''}\<rparr>) ex_rect_b) @
      rectangle_legend
        (patch_draw_options ex_collab (ex_data\<lparr>rectangle_legends := {''bars''}\<rparr>) ex_rect_b) ''b'',
      ex_data\<lparr>rectangle_legends := {''b'', ''bars''}\<rparr>) \<and>
   ''bars'' \<noteq> ''b'' \<and>
   run ex_collab [PatchObj ex_rect1, PatchObj ex_circle, PatchObj ex_rect_b] ex_data =
     Inr ([[fst (draw_patch ex_collab ex_data ex_rect1)],
           [fst (draw_patch ex_collab (ex_data\<lparr>rectangle_legends := {''bars''}\<rparr>) ex_circle)],
           [fst (draw_patch ex_collab (ex_data\<lparr>rectangle_legends := {''bars''}\<rparr>) ex_rect_b)]],
          ex_data\<lparr>rectangle_legends := {''b'', ''bars''}\<rparr>)"
proof -
  let ?d2 = "ex_data\<lparr>rectangle_legends := {''bars''}\<rparr>"
  let ?d4 = "ex_data\<lparr>rectangle_legends := {''b'', ''bars''}\<rparr>"
  let ?o1 = "rectangle_cmd ex_collab ex_data 1 2 3 4 (patch_draw_options ex_collab ex_data ex_rect1) @
      rectangle_legend (patch_draw_options ex_collab ex_data ex_rect1) ''bars''"
  let ?o2 = "rectangle_cmd ex_collab ?d2 0 0 1 1 (patch_draw_options ex_collab ?d2 ex_rect_b) @
      rectangle_legend (patch_draw_options ex_collab ?d2 ex_rect_b) ''b''"
  have h1: "shape ex_rect1 = Rectangle 1 2 3 4"
    by (simp add: ex_defs)
  have h2: "shape ex_rect_b = Rectangle 0 0 1 1"
    by (simp add: ex_defs)
  have h3: "run ex_collab [] ex_data = Inr ([], ex_data)"
    by simp
  have h4: "draw_patch ex_collab ex_data ex_rect1 = (?o1, ?d2)"
    by (simp add: patch_defs ex_defs)
  have h5: "run ex_collab [PatchObj ex_circle] ?d2 =
      Inr ([[fst (draw_patch ex_collab ?d2 ex_circle)]], ?d2)"
    by (simp add: patch_defs ex_defs)
  have h6: "draw_patch ex_collab ?d2 ex_rect_b = (?o2, ?d4)"
    by (simp add: patch_defs ex_defs)
  from rectangle_legend_entries_unique [OF h1 h2 h3 h4 h5 h6 refl refl]
  have "''bars'' \<noteq> ''b''"
    and "run ex_collab [PatchObj ex_rect1, PatchObj ex_circle, PatchObj ex_rect_b] ex_data =
      Inr ([[?o1], [fst (draw_patch ex_collab ?d2 ex_circle)], [?o2]], ?d4)"
    by simp_all
  with h4 h6 show ?thesis
    by simp
qed

subsection \<open>Ellipses\<close>

text \<open>
  C6.  As stated the claim fails in its second half: \<^verbatim>\<open>_draw_ellipse\<close> appends the rotation
  directive to the list of draw options, so the directive is the last option of the
  \<^verbatim>\<open>\draw\<close> command, after the options of the style resolver, not before them.
\<close>

theorem ellipse_rotation_first_counterexample:
  "fst (draw_patch ex_collab ex_data ex_ellipse) =
     bs @ ''draw[draw=black,rotate around={3:(axis cs:1,2)}] (axis cs:1,2) ellipse (2 and 1);\<newline>''
   \<and> \<not> prefix (bs @ ''draw[rotate around={3:(axis cs:1,2)}'')
         (fst (draw_patch ex_collab ex_data ex_ellipse))"
  by (simp add: patch_defs ex_defs)

lemma join_snoc: "xs \<noteq> [] \<Longrightarrow> join sep (xs @ [x]) = join sep xs @ sep @ x"
  by (induction sep xs rule: join.induct) simp_all

text \<open>
  C6, amended.  For an ellipse that is not a circle, the option list of the \<^verbatim>\<open>\draw\<close> command
  is the list of the style resolver when the angle is zero (no rotation directive), and that
  list followed by the directive \<^verbatim>\<open>rotate around={angle:(axis cs:x,y)}\<close>, with the centre
  of the ellipse, when the angle is not zero: the directive comes after the draw options.
\<close>

theorem ellipse_rotation_directive:
  assumes "shape ob = Ellipse (x, y) w h ang"
  shows "draw_patch c data ob =
    (let ff = float_format data;
         opts = patch_draw_options c data ob;
         rot = ''rotate around={'' @ format_float c ff ang @ '':(axis cs:'' @
               format_float c ff x @ '','' @ format_float c ff y @ '')}'';
         opts' = (if float_is_zero c ang then opts else opts @ [rot])
     in (bs @ ''draw['' @ join '','' opts' @ ''] (axis cs:'' @ format_float c ff x @ '','' @
         format_float c ff y @ '') ellipse ('' @ format_float c ff (float_half c w) @
         '' and '' @ format_float c ff (float_half c h) @ '');\<newline>'' @
         patch_legend ob opts' ''area legend'', data))"
  using assms by (simp add: draw_patch_def draw_ellipse_def rotate_around_def Let_def)

theorem ellipse_rotation_directive_witness:
  "shape ex_ellipse = Ellipse (1, 2) 4 2 3 \<and> shape ex_ellipse0 = Ellipse (1, 2) 4 2 0 \<and>
   draw_patch ex_collab ex_data ex_ellipse =
     (bs @ ''draw[draw=black,rotate around={3:(axis cs:1,2)}] (axis cs:1,2) ellipse (2 and 1);\<newline>'',
      ex_data) \<and>
   draw_patch ex_collab ex_data ex_ellipse0 =
     (bs @ ''draw[draw=black] (axis cs:1,2) ellipse (2 and 1);\<newline>'', ex_data)"
proof -
  have s: "shape ex_ellipse = Ellipse (1, 2) 4 2 3"
    by (simp add: ex_defs)
  have s0: "shape ex_ellipse0 = Ellipse (1, 2) 4 2 0"
    by (simp add: ex_defs)
  from ellipse_rotation_directive [OF s, of ex_collab ex_data]
    ellipse_rotation_directive [OF s0, of ex_collab ex_data] s s0
  show ?thesis
    by (simp add: patch_defs ex_defs)
qed

subsection \<open>The legend block of the other shapes\<close>

text \<open>
  C7.  As stated the claim fails where the list of style directives is empty:
  \<^verbatim>\<open>_patch_legend\<close> then writes \<^verbatim>\<open>\addlegendimage{}\<close>, without the legend type.
\<close>

theorem legend_image_form_counterexample:
  "is_in_legend ex_circle \<and>
   draw_patch ex_collab_plain ex_data ex_circle =
     (bs @ ''draw[] (axis cs:1,2) circle (3);\<newline>'' @
      bs @ ''addlegendimage{}\<newline>'' @ bs @ ''addlegendentry{a}\<newline>\<newline>'', ex_data) \<and>
   patch_legend ex_circle (patch_draw_options ex_collab_plain ex_data ex_circle) ''area legend''
     \<noteq> legend_block_spec ''area legend''
         (patch_draw_options ex_collab_plain ex_data ex_circle) (get_label ex_circle)"
  by (simp add: patch_defs legend_block_spec_def ex_defs)

lemma patch_legend_eq:
  "patch_legend ob opts legend_type =
     (case get_legend (axes ob) of
        None \<Rightarrow> ''''
      | Some texts \<Rightarrow>
          if get_label ob \<in> set texts
          then (if opts = []
                then bs @ ''addlegendimage{}\<newline>'' @
                     bs @ ''addlegendentry{'' @ get_label ob @ ''}\<newline>\<newline>''
                else legend_block_spec legend_type opts (get_label ob))
          else '''')"
  by (cases opts)
    (simp_all add: patch_legend_def is_in_legend_def legend_block_spec_def Let_def
      split: option.splits)

lemma patch_legend_emitted:
  "(patch_legend ob opts legend_type \<noteq> '''') =
     (case get_legend (axes ob) of None \<Rightarrow> False | Some texts \<Rightarrow> get_label ob \<in> set texts)"
  by (simp add: patch_legend_def is_in_legend_def bs_def Let_def split: option.splits)

text \<open>
  C7, amended.  The output of a shape that is not a rectangle is its drawing command followed
  by its legend block, and the run context is returned as it was.  The legend block is
  emitted (is not the empty text) if and only if the axes have a legend and the label of the
  shape is one of its texts.  With a non-empty list of style directives the block is
  \<^verbatim>\<open>\addlegendimage{<legend-type>, <directives joined by ", ">}\<close>,
  \<^verbatim>\<open>\addlegendentry{<label>}\<close> and a blank line; with an empty list the image is
  \<^verbatim>\<open>\addlegendimage{}\<close>.  Without a legend, or with a label that is not among its texts,
  nothing follows the drawing command.  The legend type is \<open>''line legend''\<close> for arrows,
  \<open>''area legend''\<close> for circles and ellipses, and the type of the path for other patches;
  the directives are those of the style resolver, for a rotated ellipse followed by the
  rotation directive.
\<close>

theorem patch_legend_form:
  "patch_legend ob opts legend_type =
     (case get_legend (axes ob) of
        None \<Rightarrow> ''''
      | Some texts \<Rightarrow>
          if get_label ob \<in> set texts
          then (if opts = []
                then bs @ ''addlegendimage{}\<newline>'' @
                     bs @ ''addlegendentry{'' @ get_label ob @ ''}\<newline>\<newline>''
                else legend_block_spec legend_type opts (get_label ob))
          else '''')
   \<and> (patch_legend ob opts legend_type \<noteq> '''') =
       (case get_legend (axes ob) of None \<Rightarrow> False | Some texts \<Rightarrow> get_label ob \<in> set texts)
   \<and> (let ff = float_format data;
           block = (\<lambda>dopts ltype.
             case get_legend (axes p) of
               None \<Rightarrow> ''''
             | Some texts \<Rightarrow>
                 if get_label p \<in> set texts
                 then (if dopts = []
                       then bs @ ''addlegendimage{}\<newline>'' @
                            bs @ ''addlegendentry{'' @ get_label p @ ''}\<newline>\<newline>''
                       else legend_block_spec ltype dopts (get_label p))
                 else '''')
       in case shape p of
            Rectangle x y w h \<Rightarrow> True
          | FancyArrowPatch pos path \<Rightarrow>
              draw_patch c data p =
                ((case pos of
                    Some (pos_a, pos_b) \<Rightarrow>
                      bs @ ''draw['' @ join '','' (get_arrow_style c p data) @
                      ''] (axis cs:'' @ format_float c ff (fst pos_a) @ '','' @
                      format_float c ff (snd pos_a) @ '') -- (axis cs:'' @
                      format_float c ff (fst pos_b) @ '','' @
                      format_float c ff (snd pos_b) @ '');\<newline>''
                  | None \<Rightarrow>
                      fst (draw_path c data path
                             (arrow_draw_options c data p @ get_arrow_style c p data)))
                 @ block (arrow_draw_options c data p) ''line legend'', data)
          | Circle cen r \<Rightarrow>
              draw_patch c data p =
                (bs @ ''draw['' @ join '','' (patch_draw_options c data p) @
                 ''] (axis cs:'' @ format_float c ff (fst cen) @ '','' @
                 format_float c ff (snd cen) @ '') circle ('' @ format_float c ff r @
                 '');\<newline>'' @
                 block (patch_draw_options c data p) ''area legend'', data)
          | Ellipse cen w h ang \<Rightarrow>
              (let dopts =
                     (if float_is_zero c ang then patch_draw_options c data p
                      else patch_draw_options c data p @
                        [''rotate around={'' @ format_float c ff ang @ '':(axis cs:'' @
                         format_float c ff (fst cen) @ '','' @ format_float c ff (snd cen) @
                         '')}''])
               in draw_patch c data p =
                    (bs @ ''draw['' @ join '','' dopts @
                     ''] (axis cs:'' @ format_float c ff (fst cen) @ '','' @
                     format_float c ff (snd cen) @ '') ellipse ('' @
                     format_float c ff (float_half c w) @ '' and '' @
                     format_float c ff (float_half c h) @ '');\<newline>'' @
                     block dopts ''area legend'', data))
          | Polygon path \<Rightarrow>
              draw_patch c data p =
                (fst (draw_path c data path (patch_draw_options c data p)) @
                 block (patch_draw_options c data p)
                   (if snd (snd (draw_path c data path (patch_draw_options c data p)))
                    then ''area legend'' else ''line legend''), data))"
  unfolding Let_def
  apply (intro conjI)
    apply (rule patch_legend_eq)
   apply (rule patch_legend_emitted)
  apply (cases "shape p")
      apply (simp_all add: draw_patch_def draw_fancy_arrow_def draw_circle_def draw_ellipse_def
      rotate_around_def draw_polygon_def patch_legend_eq Let_def
      split: option.splits prod.splits)
  done

theorem patch_legend_form_witness:
  "draw_patch ex_collab ex_data ex_circle =
     (bs @ ''draw[draw=black] (axis cs:1,2) circle (3);\<newline>'' @
      bs @ ''addlegendimage{area legend, draw=black}\<newline>'' @
      bs @ ''addlegendentry{a}\<newline>\<newline>'', ex_data) \<and>
   draw_patch ex_collab ex_data ex_ellipse =
     (bs @ ''draw[draw=black,rotate around={3:(axis cs:1,2)}] (axis cs:1,2) ellipse (2 and 1);\<newline>'',
      ex_data) \<and>
   patch_legend ex_circle [''draw=black''] ''area legend'' =
     bs @ ''addlegendimage{area legend, draw=black}\<newline>'' @
     bs @ ''addlegendentry{a}\<newline>\<newline>'' \<and>
   patch_legend ex_ellipse [''draw=black''] ''area legend'' = ''''"
proof -
  have sc: "shape ex_circle = Circle (1, 2) 3"
    by (simp add: ex_defs)
  have se: "shape ex_ellipse = Ellipse (1, 2) 4 2 3"
    by (simp add: ex_defs)
  from patch_legend_form [where ob = ex_circle and opts = "[''draw=black'']"
        and legend_type = "''area legend''" and p = ex_circle and c = ex_collab
        and data = ex_data]
    patch_legend_form [where ob = ex_ellipse and opts = "[''draw=black'']"
        and legend_type = "''area legend''" and p = ex_ellipse and c = ex_collab
        and data = ex_data]
  show ?thesis
    unfolding Let_def sc se
    by (simp add: legend_block_spec_def patch_draw_options_def ex_defs bs_def)
qed

subsection \<open>Arrows\<close>

text \<open>
  C9.  An arrow with a pair of end points gives one straight line between the two points,
  drawn with the directives of the arrow style, and its output does not depend on the path
  emitter; an arrow without the pair gives what the path emitter writes for the original
  path, with the draw options followed by the arrow style.  In both cases the legend block
  is asked for with the type \<open>''line legend''\<close>.
\<close>

theorem fancy_arrow_output:
  assumes "shape ob = FancyArrowPatch pos path"
  shows "draw_patch c data ob =
    ((case pos of
        Some (pos_a, pos_b) \<Rightarrow>
          bs @ ''draw['' @ join '','' (get_arrow_style c ob data) @ ''] (axis cs:'' @
          format_float c (float_format data) (fst pos_a) @ '','' @
          format_float c (float_format data) (snd pos_a) @ '') -- (axis cs:'' @
          format_float c (float_format data) (fst pos_b) @ '','' @
          format_float c (float_format data) (snd pos_b) @ '');\<newline>''
      | None \<Rightarrow>
          fst (draw_path c data path (arrow_draw_options c data ob @ get_arrow_style c ob data)))
     @ patch_legend ob (arrow_draw_options c data ob) ''line legend'', data)
   \<and> (pos \<noteq> None \<longrightarrow> draw_patch (c\<lparr>draw_path := f\<rparr>) data ob = draw_patch c data ob)"
  using assms
  by (auto simp: draw_patch_def draw_fancy_arrow_def arrow_draw_options_def Let_def
      split: option.splits)

theorem fancy_arrow_output_witness:
  "shape ex_arrow = FancyArrowPatch (Some ((1, 2), (3, 4))) ''arc'' \<and>
   shape ex_arrow_path = FancyArrowPatch None ''arc'' \<and>
   draw_patch ex_collab ex_data ex_arrow =
     (bs @ ''draw[->] (axis cs:1,2) -- (axis cs:3,4);\<newline>'' @
      bs @ ''addlegendimage{line legend, draw=black}\<newline>'' @
      bs @ ''addlegendentry{a}\<newline>\<newline>'', ex_data) \<and>
   draw_patch (ex_collab\<lparr>draw_path := (\<lambda>d p opts. ('''', [], True))\<rparr>) ex_data ex_arrow =
     draw_patch ex_collab ex_data ex_arrow \<and>
   draw_patch ex_collab ex_data ex_arrow_path =
     (''path arc;\<newline>'' @
      bs @ ''addlegendimage{line legend, draw=black}\<newline>'' @
      bs @ ''addlegendentry{a}\<newline>\<newline>'', ex_data)"
proof -
  have s: "shape ex_arrow = FancyArrowPatch (Some ((1, 2), (3, 4))) ''arc''"
    by (simp add: ex_defs)
  have s0: "shape ex_arrow_path = FancyArrowPatch None ''arc''"
    by (simp add: ex_defs)
  from fancy_arrow_output [OF s, of ex_collab ex_data "\<lambda>d p opts. ('''', [], True)"]
    fancy_arrow_output [OF s0, of ex_collab ex_data] s s0
  show ?thesis
    by (simp add: patch_defs ex_defs)
qed

subsection \<open>Collections: the members of the loop\<close>

lemma length_ensure_list: "length (ensure_list xs) = max 1 (length xs)"
  by (cases xs) (simp_all add: ensure_list_def)

lemma nth_modulo_ensure_list: "nth_modulo (ensure_list xs) i = cyclic xs i"
  by (auto simp: nth_modulo_def ensure_list_def cyclic_def)

lemma nth_modulo_map_Some: "nth_modulo (map Some xs) i = cyclic xs i"
  by (auto simp: nth_modulo_def cyclic_def)

lemma collection_members_eq:
  "collection_members ob =
     map (\<lambda>i. (cyclic (get_paths ob) i, cyclic (get_edgecolors ob) i,
               cyclic (get_facecolors ob) i, cyclic (get_linestyles ob) i,
               cyclic (get_linewidths ob) i, cyclic (get_transforms ob) i,
               cyclic (get_offsets ob) i))
       [0..<Max (set [length (get_paths ob), max 1 (length (get_edgecolors ob)),
               max 1 (length (get_facecolors ob)), max 1 (length (get_linestyles ob)),
               max 1 (length (get_linewidths ob)), max 1 (length (get_transforms ob)),
               length (get_offsets ob)])]"
  by (simp only: collection_members_def zip_modulo_def Let_def length_ensure_list
      nth_modulo_ensure_list nth_modulo_map_Some length_map)

lemma steps_pos:
  "0 < Max (set [length (get_paths ob), max 1 (length (get_edgecolors ob)),
               max 1 (length (get_facecolors ob)), max 1 (length (get_linestyles ob)),
               max 1 (length (get_linewidths ob)), max 1 (length (get_transforms ob)),
               length (get_offsets ob)])"
proof -
  let ?S = "set [length (get_paths ob), max 1 (length (get_edgecolors ob)),
               max 1 (length (get_facecolors ob)), max 1 (length (get_linestyles ob)),
               max 1 (length (get_linewidths ob)), max 1 (length (get_transforms ob)),
               length (get_offsets ob)]"
  have "max 1 (length (get_edgecolors ob)) \<in> ?S"
    by (simp only: list.set insert_iff) blast
  then have "max 1 (length (get_edgecolors ob)) \<le> Max ?S"
    by (intro Max_ge) (rule finite_set)
  moreover have "1 \<le> max 1 (length (get_edgecolors ob))"
    by (rule max.cobounded1)
  ultimately show ?thesis
    by linarith
qed

lemma length_collection_members:
  "length (collection_members ob) =
     Max (set [length (get_paths ob), max 1 (length (get_edgecolors ob)),
               max 1 (length (get_facecolors ob)), max 1 (length (get_linestyles ob)),
               max 1 (length (get_linewidths ob)), max 1 (length (get_transforms ob)),
               length (get_offsets ob)])"
  by (simp only: collection_members_eq length_map length_upt diff_zero)

lemma collection_members_pos: "0 < length (collection_members ob)"
  by (simp only: length_collection_members steps_pos)

lemma nth_collection_members:
  assumes "i < length (collection_members ob)"
  shows "collection_members ob ! i =
     (cyclic (get_paths ob) i, cyclic (get_edgecolors ob) i,
      cyclic (get_facecolors ob) i, cyclic (get_linestyles ob) i,
      cyclic (get_linewidths ob) i, cyclic (get_transforms ob) i,
      cyclic (get_offsets ob) i)"
proof -
  let ?n = "Max (set [length (get_paths ob), max 1 (length (get_edgecolors ob)),
               max 1 (length (get_facecolors ob)), max 1 (length (get_linestyles ob)),
               max 1 (length (get_linewidths ob)), max 1 (length (get_transforms ob)),
               length (get_offsets ob)])"
  from assms have i: "i < ?n"
    by (simp only: length_collection_members)
  then have "i < length [0..<?n]"
    by (simp only: length_upt diff_zero)
  moreover from i have "[0..<?n] ! i = i"
    by (simp only: nth_upt add_0)
  ultimately show ?thesis
    by (simp only: collection_members_eq nth_map)
qed

lemma member_cases:
  assumes "m \<in> set (collection_members ob)"
  obtains i where "i < length (collection_members ob)"
    and "m = (cyclic (get_paths ob) i, cyclic (get_edgecolors ob) i,
              cyclic (get_facecolors ob) i, cyclic (get_linestyles ob) i,
              cyclic (get_linewidths ob) i, cyclic (get_transforms ob) i,
              cyclic (get_offsets ob) i)"
proof -
  from assms obtain i where i: "i < length (collection_members ob)"
    and m: "collection_members ob ! i = m"
    by (auto simp only: in_set_conv_nth)
  from nth_collection_members [OF i] m that [OF i] show thesis
    by simp
qed

lemma cyclic_None: "(cyclic xs i = None) = (xs = [])"
  by (simp add: cyclic_def)

lemma cyclic_Some: "xs \<noteq> [] \<Longrightarrow> cyclic xs i = Some (xs ! (i mod length xs))"
  by (simp add: cyclic_def)

lemma cyclic_in_set: "cyclic xs i = Some x \<Longrightarrow> x \<in> set xs"
  by (auto simp: cyclic_def split: if_splits)

subsection \<open>Collections: the loop\<close>

lemma collection_loop_Inr:
  "collection_loop c data ob ms content vars = Inr (content', vars') \<Longrightarrow>
   (\<forall>m \<in> set ms. draw_member c data ob m = Inr (projr (draw_member c data ob m))) \<and>
   content' = content @ map (\<lambda>m. fst (projr (draw_member c data ob m))) ms \<and>
   vars' = (if ms = [] then vars else Some (snd (projr (draw_member c data ob (last ms)))))"
proof (induction ms arbitrary: content vars)
  case Nil
  then show ?case by simp
next
  case (Cons m ms)
  from Cons.prems obtain cont opts area where
    r: "draw_member c data ob m = Inr (cont, opts, area)"
    and l: "collection_loop c data ob ms (content @ [cont]) (Some (opts, area)) =
            Inr (content', vars')"
    by (auto split: sum.splits prod.splits)
  from Cons.IH [OF l] r show ?case
    by (cases "ms = []") simp_all
qed

lemma collection_loop_error:
  "collection_loop c data ob ms content vars = Inl e \<Longrightarrow>
   \<exists>m \<in> set ms. draw_member c data ob m = Inl e"
proof (induction ms arbitrary: content vars)
  case Nil
  then show ?case by simp
next
  case (Cons m ms)
  then show ?case
    by (auto split: sum.splits prod.splits)
qed

lemma collection_loop_ok:
  assumes "\<forall>m \<in> set ms. \<exists>r. draw_member c data ob m = Inr r"
  shows "collection_loop c data ob ms content vars =
    Inr (content @ map (\<lambda>m. fst (projr (draw_member c data ob m))) ms,
         if ms = [] then vars else Some (snd (projr (draw_member c data ob (last ms)))))"
  using assms
proof (induction ms arbitrary: content vars)
  case Nil
  then show ?case by simp
next
  case (Cons m ms)
  then obtain r where r: "draw_member c data ob m = Inr r"
    by auto
  obtain cont opts is_area where t: "r = (cont, opts, is_area)"
    by (cases r)
  from Cons have "\<forall>m \<in> set ms. \<exists>r. draw_member c data ob m = Inr r"
    by simp
  from Cons.IH [OF this] r t show ?case
    by simp
qed

lemma collection_loop_cong:
  assumes "\<forall>m \<in> set ms. draw_member c data ob m = draw_member c' data ob m"
  shows "collection_loop c data ob ms content vars = collection_loop c' data ob ms content vars"
  using assms
proof (induction ms arbitrary: content vars)
  case Nil
  then show ?case by simp
next
  case (Cons m ms)
  then show ?case
    by (simp split: sum.splits prod.splits)
qed

lemma draw_patchcollection_Inr:
  assumes "draw_patchcollection c data ob = Inr content"
  shows "(\<forall>m \<in> set (collection_members ob).
            draw_member c data ob m = Inr (projr (draw_member c data ob m))) \<and>
         content =
           map (\<lambda>m. fst (projr (draw_member c data ob m))) (collection_members ob) @
           [collection_legend ob
              (fst (snd (projr (draw_member c data ob (last (collection_members ob))))))
              (snd (snd (projr (draw_member c data ob (last (collection_members ob))))))]"
proof -
  from assms obtain cont opts area where
    l: "collection_loop c data ob (collection_members ob) [] None = Inr (cont, Some (opts, area))"
    and c: "content = cont @ [collection_legend ob opts area]"
    by (auto simp: draw_patchcollection_def split: sum.splits prod.splits option.splits)
  have ne: "collection_members ob \<noteq> []"
    using collection_members_pos [of ob] by auto
  from collection_loop_Inr [OF l] ne
  have a: "\<forall>m \<in> set (collection_members ob).
            draw_member c data ob m = Inr (projr (draw_member c data ob m))"
    and b: "cont = map (\<lambda>m. fst (projr (draw_member c data ob m))) (collection_members ob)"
    and v: "snd (projr (draw_member c data ob (last (collection_members ob)))) = (opts, area)"
    by simp_all
  from v have "fst (snd (projr (draw_member c data ob (last (collection_members ob))))) = opts"
    and "snd (snd (projr (draw_member c data ob (last (collection_members ob))))) = area"
    by simp_all
  with a b c show ?thesis
    by simp
qed

lemma draw_patchcollection_ok:
  assumes "\<forall>m \<in> set (collection_members ob). \<exists>r. draw_member c data ob m = Inr r"
  shows "draw_patchcollection c data ob =
     Inr (map (\<lambda>m. fst (projr (draw_member c data ob m))) (collection_members ob) @
          [collection_legend ob
              (fst (snd (projr (draw_member c data ob (last (collection_members ob))))))
              (snd (snd (projr (draw_member c data ob (last (collection_members ob))))))])"
proof -
  have ne: "collection_members ob \<noteq> []"
    using collection_members_pos [of ob] by auto
  from collection_loop_ok [OF assms, of "[]" None] ne show ?thesis
    by (simp add: draw_patchcollection_def split: prod.splits)
qed

lemma draw_member_plain:
  "draw_member c data ob (Some p, e, f, l, w, None, off) =
     Inr (draw_path c data p
            (get_draw_options c data
               \<lparr>obj = CollectionObj ob, ec = e, fc = f, ls = l, lw = w, hatch = None\<rparr>))"
  by (simp add: draw_member_def Let_def)

lemma draw_member_transformed:
  "draw_member c data ob (Some p, e, f, l, w, Some tr, Some xy) =
     Inr (draw_path c data (transformed c p tr xy)
            (get_draw_options c data
               \<lparr>obj = CollectionObj ob, ec = e, fc = f, ls = l, lw = w, hatch = None\<rparr>))"
  by (simp add: draw_member_def Let_def)

lemma draw_member_no_offset:
  "draw_member c data ob (Some p, e, f, l, w, Some tr, None) = Inl TypeError"
  by (simp add: draw_member_def Let_def)

lemma draw_member_no_path:
  "draw_member c data ob (None, e, f, l, w, t, off) = Inl AttributeError"
  by (simp add: draw_member_def Let_def split: option.splits)

lemma draw_member_TypeError:
  "draw_member c data ob (path, e, f, l, w, t, off) = Inl TypeError \<Longrightarrow>
   path \<noteq> None \<and> t \<noteq> None \<and> off = None"
  by (simp add: draw_member_def Let_def split: option.splits)

lemma draw_member_ok:
  assumes "m \<in> set (collection_members ob)"
    and "get_paths ob \<noteq> []"
    and "get_transforms ob = [] \<or> get_offsets ob \<noteq> []"
  shows "\<exists>r. draw_member c data ob m = Inr r"
proof -
  from assms(1) obtain i where
    m: "m = (cyclic (get_paths ob) i, cyclic (get_edgecolors ob) i,
             cyclic (get_facecolors ob) i, cyclic (get_linestyles ob) i,
             cyclic (get_linewidths ob) i, cyclic (get_transforms ob) i,
             cyclic (get_offsets ob) i)"
    by (rule member_cases)
  show ?thesis
  proof (cases "get_transforms ob = []")
    case True
    then have "cyclic (get_transforms ob) i = None"
      by (simp only: cyclic_None)
    with cyclic_Some [OF assms(2)] show ?thesis
      unfolding m by (simp only: draw_member_plain) blast
  next
    case False
    with assms(3) have "get_offsets ob \<noteq> []"
      by simp
    from cyclic_Some [OF this] cyclic_Some [OF False] cyclic_Some [OF assms(2)]
    show ?thesis
      unfolding m by (simp only: draw_member_transformed) blast
  qed
qed

lemmas collection_defs = draw_patchcollection_def collection_members_def zip_modulo_def
  nth_modulo_def ensure_list_def draw_member_def collection_legend_def patch_legend_def
  is_in_legend_def Let_def upt_rec bs_def

lemma draw_member_nth:
  assumes "i < length (collection_members ob)"
    and "draw_member c data ob (collection_members ob ! i) = Inr r"
  shows "get_paths ob \<noteq> [] \<and> (get_transforms ob \<noteq> [] \<longrightarrow> get_offsets ob \<noteq> []) \<and>
    r = draw_path c data
          (if get_transforms ob = [] then get_paths ob ! (i mod length (get_paths ob))
           else transformed c (get_paths ob ! (i mod length (get_paths ob)))
                  (get_transforms ob ! (i mod length (get_transforms ob)))
                  (get_offsets ob ! (i mod length (get_offsets ob))))
          (get_draw_options c data
             \<lparr>obj = CollectionObj ob, ec = cyclic (get_edgecolors ob) i,
              fc = cyclic (get_facecolors ob) i, ls = cyclic (get_linestyles ob) i,
              lw = cyclic (get_linewidths ob) i, hatch = None\<rparr>)"
proof -
  note m = nth_collection_members [OF assms(1)]
  have p: "get_paths ob \<noteq> []"
  proof
    assume "get_paths ob = []"
    then have "cyclic (get_paths ob) i = None"
      by (simp only: cyclic_None)
    with assms(2) show False
      unfolding m by (simp only: draw_member_no_path) simp
  qed
  note ps = cyclic_Some [OF p, of i]
  show ?thesis
  proof (cases "get_transforms ob = []")
    case True
    then have "cyclic (get_transforms ob) i = None"
      by (simp only: cyclic_None)
    with assms(2) ps True p show ?thesis
      unfolding m by (simp add: draw_member_plain)
  next
    case False
    note ts = cyclic_Some [OF False, of i]
    have o: "get_offsets ob \<noteq> []"
    proof
      assume "get_offsets ob = []"
      then have "cyclic (get_offsets ob) i = None"
        by (simp only: cyclic_None)
      with assms(2) ps ts show False
        unfolding m by (simp add: draw_member_no_offset)
    qed
    note os = cyclic_Some [OF o, of i]
    from assms(2) ps ts os False p o show ?thesis
      unfolding m by (simp add: draw_member_transformed)
  qed
qed

lemma draw_patchcollection_nth:
  assumes "draw_patchcollection c data ob = Inr content"
    and "i < length (collection_members ob)"
  shows "draw_member c data ob (collection_members ob ! i) =
           Inr (projr (draw_member c data ob (collection_members ob ! i)))"
    and "content ! i = fst (projr (draw_member c data ob (collection_members ob ! i)))"
    and "length content = length (collection_members ob) + 1"
proof -
  note r = draw_patchcollection_Inr [OF assms(1)]
  from assms(2) have "collection_members ob ! i \<in> set (collection_members ob)"
    by (rule nth_mem)
  with r show "draw_member c data ob (collection_members ob ! i) =
           Inr (projr (draw_member c data ob (collection_members ob ! i)))"
    by blast
  from r have c: "content =
      map (\<lambda>m. fst (projr (draw_member c data ob m))) (collection_members ob) @
      [collection_legend ob
         (fst (snd (projr (draw_member c data ob (last (collection_members ob))))))
         (snd (snd (projr (draw_member c data ob (last (collection_members ob))))))]"
    by blast
  from assms(2) show "content ! i = fst (projr (draw_member c data ob (collection_members ob ! i)))"
    by (subst c) (simp add: nth_append)
  show "length content = length (collection_members ob) + 1"
    by (subst c) simp
qed

text \<open>
  C2.  As stated the claim fails: the offsets are one of the sequences that
  \<^verbatim>\<open>zip_modulo\<close> takes the longest of (line 94).  One marker path at three offsets, with no
  other sequence longer than one, is drawn three times.
\<close>

theorem collection_steps_counterexample:
  "Max (set [length (get_paths ex_scatter), length (get_edgecolors ex_scatter),
             length (get_facecolors ex_scatter), length (get_linestyles ex_scatter),
             length (get_linewidths ex_scatter), length (get_transforms ex_scatter)]) = 1 \<and>
   length (collection_members ex_scatter) = 3 \<and>
   draw_patchcollection ex_collab ex_data ex_scatter =
     Inr [''path area;\<newline>'', ''path area;\<newline>'', ''path area;\<newline>'',
          bs @ ''addlegendimage{area legend, draw=black}\<newline>'' @
          bs @ ''addlegendentry{a}\<newline>\<newline>'']"
  by (simp add: collection_defs ex_defs)

text \<open>
  C2, amended.  The loop of \<^verbatim>\<open>draw_patchcollection\<close> runs for as many steps as the longest
  of the seven sequences has elements: the paths, the edge colours, the face colours, the
  line styles, the line widths, the transforms and the offsets, where an empty sequence of
  colours, styles, widths or transforms counts as one element.  There is at least one step.
  At step \<open>i\<close> every sequence contributes its element \<open>i mod length\<close>, and a sequence of length
  zero contributes the unset placeholder.  When the function returns, its result has one
  block per step and the closing block; the block of step \<open>i\<close> is what the path emitter
  writes for the path of that step with the options that the style resolver gives for the
  colours, style and width of that step.
\<close>

theorem collection_steps:
  "length (collection_members ob) =
     Max (set [length (get_paths ob), max 1 (length (get_edgecolors ob)),
               max 1 (length (get_facecolors ob)), max 1 (length (get_linestyles ob)),
               max 1 (length (get_linewidths ob)), max 1 (length (get_transforms ob)),
               length (get_offsets ob)])
   \<and> 0 < length (collection_members ob)
   \<and> (i < length (collection_members ob) \<longrightarrow>
        collection_members ob ! i =
          (cyclic (get_paths ob) i, cyclic (get_edgecolors ob) i,
           cyclic (get_facecolors ob) i, cyclic (get_linestyles ob) i,
           cyclic (get_linewidths ob) i, cyclic (get_transforms ob) i,
           cyclic (get_offsets ob) i))
   \<and> (draw_patchcollection c data ob = Inr content \<longrightarrow>
        length content = length (collection_members ob) + 1 \<and>
        (i < length (collection_members ob) \<longrightarrow>
           content ! i =
             fst (draw_path c data
                    (if get_transforms ob = [] then get_paths ob ! (i mod length (get_paths ob))
                     else transformed c (get_paths ob ! (i mod length (get_paths ob)))
                            (get_transforms ob ! (i mod length (get_transforms ob)))
                            (get_offsets ob ! (i mod length (get_offsets ob))))
                    (get_draw_options c data
                       \<lparr>obj = CollectionObj ob, ec = cyclic (get_edgecolors ob) i,
                        fc = cyclic (get_facecolors ob) i, ls = cyclic (get_linestyles ob) i,
                        lw = cyclic (get_linewidths ob) i, hatch = None\<rparr>))))"
proof (intro conjI impI)
  show "length (collection_members ob) =
     Max (set [length (get_paths ob), max 1 (length (get_edgecolors ob)),
               max 1 (length (get_facecolors ob)), max 1 (length (get_linestyles ob)),
               max 1 (length (get_linewidths ob)), max 1 (length (get_transforms ob)),
               length (get_offsets ob)])"
    by (rule length_collection_members)
next
  show "0 < length (collection_members ob)"
    by (rule collection_members_pos)
next
  assume "i < length (collection_members ob)"
  then show "collection_members ob ! i =
          (cyclic (get_paths ob) i, cyclic (get_edgecolors ob) i,
           cyclic (get_facecolors ob) i, cyclic (get_linestyles ob) i,
           cyclic (get_linewidths ob) i, cyclic (get_transforms ob) i,
           cyclic (get_offsets ob) i)"
    by (rule nth_collection_members)
next
  assume "draw_patchcollection c data ob = Inr content"
  then show "length content = length (collection_members ob) + 1"
    by (rule draw_patchcollection_nth(3)) (rule collection_members_pos)
next
  assume r: "draw_patchcollection c data ob = Inr content"
    and i: "i < length (collection_members ob)"
  from draw_member_nth [OF i draw_patchcollection_nth(1) [OF r i]]
    draw_patchcollection_nth(2) [OF r i]
  show "content ! i =
             fst (draw_path c data
                    (if get_transforms ob = [] then get_paths ob ! (i mod length (get_paths ob))
                     else transformed c (get_paths ob ! (i mod length (get_paths ob)))
                            (get_transforms ob ! (i mod length (get_transforms ob)))
                            (get_offsets ob ! (i mod length (get_offsets ob))))
                    (get_draw_options c data
                       \<lparr>obj = CollectionObj ob, ec = cyclic (get_edgecolors ob) i,
                        fc = cyclic (get_facecolors ob) i, ls = cyclic (get_linestyles ob) i,
                        lw = cyclic (get_linewidths ob) i, hatch = None\<rparr>))"
    by simp
qed

text \<open>
  The instance: the third step of the marker path at three offsets.  The one edge colour is
  used again, the empty sequences of face colours and transforms give the placeholder.
\<close>

theorem collection_steps_witness:
  "(2::nat) < length (collection_members ex_scatter) \<and>
   length (collection_members ex_scatter) = 3 \<and>
   collection_members ex_scatter ! 2 =
     (Some ''area'', Some ''k'', None, Some ''-'', Some ''1'', None, Some (3, 3)) \<and>
   draw_patchcollection ex_collab ex_data ex_scatter =
     Inr [''path area;\<newline>'', ''path area;\<newline>'', ''path area;\<newline>'',
          bs @ ''addlegendimage{area legend, draw=black}\<newline>'' @
          bs @ ''addlegendentry{a}\<newline>\<newline>''] \<and>
   [''path area;\<newline>'', ''path area;\<newline>'', ''path area;\<newline>'',
    bs @ ''addlegendimage{area legend, draw=black}\<newline>'' @
    bs @ ''addlegendentry{a}\<newline>\<newline>''] ! 2 =
     fst (draw_path ex_collab ex_data ''area''
            (get_draw_options ex_collab ex_data
               \<lparr>obj = CollectionObj ex_scatter, ec = Some ''k'', fc = None, ls = Some ''-'',
                lw = Some ''1'', hatch = None\<rparr>))"
proof -
  let ?content = "[''path area;\<newline>'', ''path area;\<newline>'', ''path area;\<newline>'',
          bs @ ''addlegendimage{area legend, draw=black}\<newline>'' @
          bs @ ''addlegendentry{a}\<newline>\<newline>'']"
  have n: "length (collection_members ex_scatter) = 3"
    by (simp add: collection_defs ex_defs)
  then have i: "(2::nat) < length (collection_members ex_scatter)"
    by simp
  have r: "draw_patchcollection ex_collab ex_data ex_scatter = Inr ?content"
    by (simp add: collection_defs ex_defs)
  from collection_steps [where ob = ex_scatter and i = 2 and c = ex_collab and data = ex_data
      and content = ?content] i r
  have "collection_members ex_scatter ! 2 =
          (cyclic (get_paths ex_scatter) 2, cyclic (get_edgecolors ex_scatter) 2,
           cyclic (get_facecolors ex_scatter) 2, cyclic (get_linestyles ex_scatter) 2,
           cyclic (get_linewidths ex_scatter) 2, cyclic (get_transforms ex_scatter) 2,
           cyclic (get_offsets ex_scatter) 2)"
    and "?content ! 2 =
      fst (draw_path ex_collab ex_data
             (if get_transforms ex_scatter = []
              then get_paths ex_scatter ! (2 mod length (get_paths ex_scatter))
              else transformed ex_collab
                     (get_paths ex_scatter ! (2 mod length (get_paths ex_scatter)))
                     (get_transforms ex_scatter ! (2 mod length (get_transforms ex_scatter)))
                     (get_offsets ex_scatter ! (2 mod length (get_offsets ex_scatter))))
             (get_draw_options ex_collab ex_data
                \<lparr>obj = CollectionObj ex_scatter, ec = cyclic (get_edgecolors ex_scatter) 2,
                 fc = cyclic (get_facecolors ex_scatter) 2,
                 ls = cyclic (get_linestyles ex_scatter) 2,
                 lw = cyclic (get_linewidths ex_scatter) 2, hatch = None\<rparr>))"
    by blast+
  then have "collection_members ex_scatter ! 2 =
     (Some ''area'', Some ''k'', None, Some ''-'', Some ''1'', None, Some (3, 3))"
    and "?content ! 2 =
     fst (draw_path ex_collab ex_data ''area''
            (get_draw_options ex_collab ex_data
               \<lparr>obj = CollectionObj ex_scatter, ec = Some ''k'', fc = None, ls = Some ''-'',
                lw = Some ''1'', hatch = None\<rparr>))"
    by (simp_all add: cyclic_def ex_defs)
  with i n r show ?thesis
    by blast
qed

subsection \<open>Collections: the closing block\<close>

lemma collection_legend_eq:
  "collection_legend ob opts area =
     (case get_legend (axes ob) of
        None \<Rightarrow> ''\<newline>''
      | Some texts \<Rightarrow>
          if get_label ob \<in> set texts
          then (if opts = []
                then bs @ ''addlegendimage{}\<newline>'' @
                     bs @ ''addlegendentry{'' @ get_label ob @ ''}\<newline>\<newline>''
                else legend_block_spec (if area then ''area legend'' else ''line legend'') opts
                       (get_label ob))
          else ''\<newline>'')"
  by (simp add: collection_legend_def patch_legend_eq legend_block_spec_def bs_def Let_def
      split: option.splits)

lemma draw_patchcollection_returns:
  assumes "get_paths ob \<noteq> []"
    and "get_transforms ob = [] \<or> get_offsets ob \<noteq> []"
  shows "\<not> isl (draw_patchcollection c data ob)"
proof -
  from assms have "\<forall>m \<in> set (collection_members ob). \<exists>r. draw_member c data ob m = Inr r"
    by (blast intro: draw_member_ok)
  from draw_patchcollection_ok [OF this] show ?thesis
    by simp
qed

lemma draw_patchcollection_last:
  assumes "draw_patchcollection c data ob = Inr content"
  shows "last content =
     collection_legend ob
       (fst (snd (projr (draw_member c data ob
          (collection_members ob ! (length (collection_members ob) - 1))))))
       (snd (snd (projr (draw_member c data ob
          (collection_members ob ! (length (collection_members ob) - 1))))))"
    and "butlast content =
     map (\<lambda>m. fst (projr (draw_member c data ob m))) (collection_members ob)"
proof -
  have ne: "collection_members ob \<noteq> []"
    using collection_members_pos [of ob] by auto
  then have l: "last (collection_members ob) =
      collection_members ob ! (length (collection_members ob) - 1)"
    by (rule last_conv_nth)
  from draw_patchcollection_Inr [OF assms] have c: "content =
      map (\<lambda>m. fst (projr (draw_member c data ob m))) (collection_members ob) @
      [collection_legend ob
         (fst (snd (projr (draw_member c data ob (last (collection_members ob))))))
         (snd (snd (projr (draw_member c data ob (last (collection_members ob))))))]"
    by blast
  show "last content =
     collection_legend ob
       (fst (snd (projr (draw_member c data ob
          (collection_members ob ! (length (collection_members ob) - 1))))))
       (snd (snd (projr (draw_member c data ob
          (collection_members ob ! (length (collection_members ob) - 1))))))"
    by (subst c) (simp add: l)
  show "butlast content =
     map (\<lambda>m. fst (projr (draw_member c data ob m))) (collection_members ob)"
    by (subst c) simp
qed

text \<open>
  C4.  As stated the claim fails: the block that closes a collection is a legend block only
  when the label of the collection is among the texts of the legend; otherwise
  \<^verbatim>\<open>draw_patchcollection\<close> appends a single newline (line 106).  And a legend block carries
  the legend type only when the last member has style directives (line 63).
\<close>

theorem collection_legend_block_counterexample:
  "draw_patchcollection ex_collab ex_data ex_unlisted = Inr [''path area;\<newline>'', ''\<newline>''] \<and>
   ''\<newline>'' \<noteq> legend_block_spec ''area legend'' [''draw=black''] (get_label ex_unlisted) \<and>
   draw_patchcollection ex_collab_plain ex_data ex_area_line =
     Inr [''path area;\<newline>'', ''path line;\<newline>'',
          bs @ ''addlegendimage{}\<newline>'' @ bs @ ''addlegendentry{a}\<newline>\<newline>'']"
  by (simp add: collection_defs legend_block_spec_def ex_defs)

text \<open>
  C4, amended.  \<^verbatim>\<open>draw_patchcollection\<close> returns for every collection that has a path and
  has an offset whenever it has a transform.  Whenever it returns, its result is the drawing
  blocks of the members, one per step of the loop and in their order, followed by exactly
  one closing block.  The closing block is made from the style directives and the area or
  line classification that the path emitter returned for the last member of the loop: when
  the axes have a legend and the label of the collection is one of its texts, it is the
  legend block, with the legend type \<open>''area legend''\<close> or \<open>''line legend''\<close> by that
  classification (and \<^verbatim>\<open>\addlegendimage{}\<close> when the last member has no style directive);
  otherwise it is a single newline.
\<close>

theorem collection_closing_block:
  "(get_paths ob \<noteq> [] \<and> (get_transforms ob = [] \<or> get_offsets ob \<noteq> []) \<longrightarrow>
      \<not> isl (draw_patchcollection c data ob))
   \<and> (draw_patchcollection c data ob = Inr content \<longrightarrow>
       (let k = length (collection_members ob) - 1;
            last_result =
              draw_path c data
                (if get_transforms ob = [] then get_paths ob ! (k mod length (get_paths ob))
                 else transformed c (get_paths ob ! (k mod length (get_paths ob)))
                        (get_transforms ob ! (k mod length (get_transforms ob)))
                        (get_offsets ob ! (k mod length (get_offsets ob))))
                (get_draw_options c data
                   \<lparr>obj = CollectionObj ob, ec = cyclic (get_edgecolors ob) k,
                    fc = cyclic (get_facecolors ob) k, ls = cyclic (get_linestyles ob) k,
                    lw = cyclic (get_linewidths ob) k, hatch = None\<rparr>);
            draw_options = fst (snd last_result);
            is_area = snd (snd last_result);
            legend_type = (if is_area then ''area legend'' else ''line legend'');
            closing =
              (case get_legend (axes ob) of
                 None \<Rightarrow> ''\<newline>''
               | Some texts \<Rightarrow>
                   if get_label ob \<in> set texts
                   then (if draw_options = []
                         then bs @ ''addlegendimage{}\<newline>'' @
                              bs @ ''addlegendentry{'' @ get_label ob @ ''}\<newline>\<newline>''
                         else legend_block_spec legend_type draw_options (get_label ob))
                   else ''\<newline>'')
        in length content = length (collection_members ob) + 1
           \<and> butlast content =
               map (\<lambda>m. fst (projr (draw_member c data ob m))) (collection_members ob)
           \<and> content ! k = fst last_result
           \<and> last content = closing))"
proof (intro conjI impI)
  assume "get_paths ob \<noteq> [] \<and> (get_transforms ob = [] \<or> get_offsets ob \<noteq> [])"
  then have "get_paths ob \<noteq> []" and "get_transforms ob = [] \<or> get_offsets ob \<noteq> []"
    by simp_all
  then show "\<not> isl (draw_patchcollection c data ob)"
    by (rule draw_patchcollection_returns)
next
  assume r: "draw_patchcollection c data ob = Inr content"
  let ?k = "length (collection_members ob) - 1"
  have k: "?k < length (collection_members ob)"
    using collection_members_pos [of ob] by simp
  note d = draw_member_nth [OF k draw_patchcollection_nth(1) [OF r k]]
  from d have p: "projr (draw_member c data ob (collection_members ob ! ?k)) =
      draw_path c data
        (if get_transforms ob = [] then get_paths ob ! (?k mod length (get_paths ob))
         else transformed c (get_paths ob ! (?k mod length (get_paths ob)))
                (get_transforms ob ! (?k mod length (get_transforms ob)))
                (get_offsets ob ! (?k mod length (get_offsets ob))))
        (get_draw_options c data
           \<lparr>obj = CollectionObj ob, ec = cyclic (get_edgecolors ob) ?k,
            fc = cyclic (get_facecolors ob) ?k, ls = cyclic (get_linestyles ob) ?k,
            lw = cyclic (get_linewidths ob) ?k, hatch = None\<rparr>)"
    by blast
  from draw_patchcollection_nth(3) [OF r k] draw_patchcollection_last(2) [OF r]
    draw_patchcollection_nth(2) [OF r k] draw_patchcollection_last(1) [OF r]
  show "let k = length (collection_members ob) - 1;
            last_result =
              draw_path c data
                (if get_transforms ob = [] then get_paths ob ! (k mod length (get_paths ob))
                 else transformed c (get_paths ob ! (k mod length (get_paths ob)))
                        (get_transforms ob ! (k mod length (get_transforms ob)))
                        (get_offsets ob ! (k mod length (get_offsets ob))))
                (get_draw_options c data
                   \<lparr>obj = CollectionObj ob, ec = cyclic (get_edgecolors ob) k,
                    fc = cyclic (get_facecolors ob) k, ls = cyclic (get_linestyles ob) k,
                    lw = cyclic (get_linewidths ob) k, hatch = None\<rparr>);
            draw_options = fst (snd last_result);
            is_area = snd (snd last_result);
            legend_type = (if is_area then ''area legend'' else ''line legend'');
            closing =
              (case get_legend (axes ob) of
                 None \<Rightarrow> ''\<newline>''
               | Some texts \<Rightarrow>
                   if get_label ob \<in> set texts
                   then (if draw_options = []
                         then bs @ ''addlegendimage{}\<newline>'' @
                              bs @ ''addlegendentry{'' @ get_label ob @ ''}\<newline>\<newline>''
                         else legend_block_spec legend_type draw_options (get_label ob))
                   else ''\<newline>'')
        in length content = length (collection_members ob) + 1
           \<and> butlast content =
               map (\<lambda>m. fst (projr (draw_member c data ob m))) (collection_members ob)
           \<and> content ! k = fst last_result
           \<and> last content = closing"
    unfolding Let_def by (simp only: p collection_legend_eq)
qed

text \<open>
  The instance: an area followed by a line, in a collection whose label is in the legend.
  The closing block is the legend block of the type \<open>''line legend''\<close>, as the last member
  has it.
\<close>

theorem collection_closing_block_witness:
  "get_paths ex_area_line \<noteq> [] \<and>
   (get_transforms ex_area_line = [] \<or> get_offsets ex_area_line \<noteq> []) \<and>
   \<not> isl (draw_patchcollection ex_collab ex_data ex_area_line) \<and>
   draw_patchcollection ex_collab ex_data ex_area_line =
     Inr [''path area;\<newline>'', ''path line;\<newline>'',
          bs @ ''addlegendimage{line legend, draw=black}\<newline>'' @
          bs @ ''addlegendentry{a}\<newline>\<newline>''] \<and>
   last [''path area;\<newline>'', ''path line;\<newline>'',
         bs @ ''addlegendimage{line legend, draw=black}\<newline>'' @
         bs @ ''addlegendentry{a}\<newline>\<newline>''] =
     legend_block_spec ''line legend''
       (fst (snd (draw_path ex_collab ex_data ''line'' [''draw=black''])))
       (get_label ex_area_line)"
proof -
  let ?content = "[''path area;\<newline>'', ''path line;\<newline>'',
          bs @ ''addlegendimage{line legend, draw=black}\<newline>'' @
          bs @ ''addlegendentry{a}\<newline>\<newline>'']"
  have h1: "get_paths ex_area_line \<noteq> [] \<and>
      (get_transforms ex_area_line = [] \<or> get_offsets ex_area_line \<noteq> [])"
    by (simp add: ex_defs)
  have h2: "draw_patchcollection ex_collab ex_data ex_area_line = Inr ?content"
    by (simp add: collection_defs ex_defs)
  have n: "length (collection_members ex_area_line) = 2"
    by (simp add: collection_defs ex_defs)
  from collection_closing_block [where ob = ex_area_line and c = ex_collab and data = ex_data
      and content = ?content] h1 h2
  have a: "\<not> isl (draw_patchcollection ex_collab ex_data ex_area_line)"
    by blast
  have b: "last ?content =
     legend_block_spec ''line legend''
       (fst (snd (draw_path ex_collab ex_data ''line'' [''draw=black''])))
       (get_label ex_area_line)"
    using collection_closing_block [where ob = ex_area_line and c = ex_collab
        and data = ex_data and content = ?content] h1 h2
    unfolding Let_def n
    by (simp add: cyclic_def ex_defs)
  from h1 h2 a b show ?thesis
    by blast
qed

subsection \<open>Collections: members without a transform\<close>

lemma draw_member_transformed_irrelevant:
  "draw_member (c\<lparr>transformed := g\<rparr>) data ob (path, e, f, l, w, None, off) =
   draw_member c data ob (path, e, f, l, w, None, off)"
  by (cases path) (simp_all add: draw_member_def Let_def)

lemma draw_patchcollection_transformed_irrelevant:
  assumes "get_transforms ob = []"
  shows "draw_patchcollection (c\<lparr>transformed := g\<rparr>) data ob = draw_patchcollection c data ob"
proof -
  have "\<forall>m \<in> set (collection_members ob).
      draw_member (c\<lparr>transformed := g\<rparr>) data ob m = draw_member c data ob m"
  proof
    fix m
    assume "m \<in> set (collection_members ob)"
    then obtain i where
      m: "m = (cyclic (get_paths ob) i, cyclic (get_edgecolors ob) i,
               cyclic (get_facecolors ob) i, cyclic (get_linestyles ob) i,
               cyclic (get_linewidths ob) i, cyclic (get_transforms ob) i,
               cyclic (get_offsets ob) i)"
      by (rule member_cases)
    from assms have "cyclic (get_transforms ob) i = None"
      by (simp only: cyclic_None)
    then show "draw_member (c\<lparr>transformed := g\<rparr>) data ob m = draw_member c data ob m"
      unfolding m by (simp only: draw_member_transformed_irrelevant)
  qed
  from collection_loop_cong [OF this] show ?thesis
    by (simp only: draw_patchcollection_def)
qed

text \<open>
  C5.  A member of the loop whose transform is absent, which is the case exactly when the
  collection has no transforms, has its path handed to the path emitter as it is, with the
  options of the style resolver; the offset paired with it is not used, whatever it is.
  Neither the member nor the collection depends on the composition of transform and offset:
  replacing that composition by any other function leaves the results as they are.  When
  \<^verbatim>\<open>draw_patchcollection\<close> returns, the block of the member is the text of the path emitter
  for the raw path; and it returns whenever the member has a path.
\<close>

theorem absent_transform_raw_path:
  assumes "i < length (collection_members ob)"
    and "collection_members ob ! i = (path, e, f, l, w, None, off)"
  shows "get_transforms ob = []
     \<and> path = cyclic (get_paths ob) i
     \<and> off = cyclic (get_offsets ob) i
     \<and> draw_member c data ob (collection_members ob ! i) =
         (case path of
            None \<Rightarrow> Inl AttributeError
          | Some p \<Rightarrow>
              Inr (draw_path c data p
                     (get_draw_options c data
                        \<lparr>obj = CollectionObj ob, ec = e, fc = f, ls = l, lw = w,
                         hatch = None\<rparr>)))
     \<and> draw_member (c\<lparr>transformed := g\<rparr>) data ob (collection_members ob ! i) =
         draw_member c data ob (collection_members ob ! i)
     \<and> draw_patchcollection (c\<lparr>transformed := g\<rparr>) data ob = draw_patchcollection c data ob
     \<and> (draw_patchcollection c data ob = Inr content \<longrightarrow>
          path \<noteq> None \<and>
          content ! i =
            fst (draw_path c data (the path)
                   (get_draw_options c data
                      \<lparr>obj = CollectionObj ob, ec = e, fc = f, ls = l, lw = w,
                       hatch = None\<rparr>)))
     \<and> (path \<noteq> None \<longrightarrow> \<not> isl (draw_patchcollection c data ob))"
proof -
  from nth_collection_members [OF assms(1)] assms(2)
  have p: "path = cyclic (get_paths ob) i"
    and t: "cyclic (get_transforms ob) i = None"
    and o: "off = cyclic (get_offsets ob) i"
    by simp_all
  from t have ts: "get_transforms ob = []"
    by (simp only: cyclic_None)
  have d: "draw_member c data ob (collection_members ob ! i) =
         (case path of
            None \<Rightarrow> Inl AttributeError
          | Some p \<Rightarrow>
              Inr (draw_path c data p
                     (get_draw_options c data
                        \<lparr>obj = CollectionObj ob, ec = e, fc = f, ls = l, lw = w,
                         hatch = None\<rparr>)))"
    unfolding assms(2) by (simp add: draw_member_def Let_def)
  have m: "draw_member (c\<lparr>transformed := g\<rparr>) data ob (collection_members ob ! i) =
         draw_member c data ob (collection_members ob ! i)"
    unfolding assms(2) by (rule draw_member_transformed_irrelevant)
  have k: "draw_patchcollection (c\<lparr>transformed := g\<rparr>) data ob =
      draw_patchcollection c data ob"
    using ts by (rule draw_patchcollection_transformed_irrelevant)
  have r: "draw_patchcollection c data ob = Inr content \<longrightarrow>
          path \<noteq> None \<and>
          content ! i =
            fst (draw_path c data (the path)
                   (get_draw_options c data
                      \<lparr>obj = CollectionObj ob, ec = e, fc = f, ls = l, lw = w,
                       hatch = None\<rparr>))"
  proof
    assume c: "draw_patchcollection c data ob = Inr content"
    from draw_patchcollection_nth(1) [OF c assms(1)] d
    have ne: "path \<noteq> None"
      by (cases path) simp_all
    with draw_patchcollection_nth(2) [OF c assms(1)] d
    show "path \<noteq> None \<and>
          content ! i =
            fst (draw_path c data (the path)
                   (get_draw_options c data
                      \<lparr>obj = CollectionObj ob, ec = e, fc = f, ls = l, lw = w,
                       hatch = None\<rparr>))"
      by (cases path) simp_all
  qed
  have z: "path \<noteq> None \<longrightarrow> \<not> isl (draw_patchcollection c data ob)"
  proof
    assume "path \<noteq> None"
    with p have "get_paths ob \<noteq> []"
      by (simp add: cyclic_None)
    moreover from ts have "get_transforms ob = [] \<or> get_offsets ob \<noteq> []"
      by simp
    ultimately show "\<not> isl (draw_patchcollection c data ob)"
      by (rule draw_patchcollection_returns)
  qed
  from ts p o d m k r z show ?thesis
    by blast
qed

text \<open>
  The instance: the third step of the marker path at three offsets.  The offset \<open>(3, 3)\<close> is
  paired with the member and the path emitter receives the path \<open>''area''\<close> as it is.
\<close>

theorem absent_transform_raw_path_witness:
  "(2::nat) < length (collection_members ex_scatter) \<and>
   collection_members ex_scatter ! 2 =
     (Some ''area'', Some ''k'', None, Some ''-'', Some ''1'', None, Some (3, 3)) \<and>
   get_offsets ex_scatter \<noteq> [] \<and>
   draw_member ex_collab ex_data ex_scatter (collection_members ex_scatter ! 2) =
     Inr (draw_path ex_collab ex_data ''area''
            (get_draw_options ex_collab ex_data
               \<lparr>obj = CollectionObj ex_scatter, ec = Some ''k'', fc = None, ls = Some ''-'',
                lw = Some ''1'', hatch = None\<rparr>)) \<and>
   draw_patchcollection (ex_collab\<lparr>transformed := (\<lambda>p t off. ''moved'')\<rparr>) ex_data ex_scatter =
     draw_patchcollection ex_collab ex_data ex_scatter \<and>
   draw_patchcollection ex_collab ex_data ex_scatter =
     Inr [''path area;\<newline>'', ''path area;\<newline>'', ''path area;\<newline>'',
          bs @ ''addlegendimage{area legend, draw=black}\<newline>'' @
          bs @ ''addlegendentry{a}\<newline>\<newline>'']"
proof -
  have i: "(2::nat) < length (collection_members ex_scatter)"
    by (simp add: collection_defs ex_defs)
  have m: "collection_members ex_scatter ! 2 =
     (Some ''area'', Some ''k'', None, Some ''-'', Some ''1'', None, Some (3, 3))"
    by (simp add: collection_defs ex_defs)
  have o: "get_offsets ex_scatter \<noteq> []"
    by (simp add: ex_defs)
  have r: "draw_patchcollection ex_collab ex_data ex_scatter =
     Inr [''path area;\<newline>'', ''path area;\<newline>'', ''path area;\<newline>'',
          bs @ ''addlegendimage{area legend, draw=black}\<newline>'' @
          bs @ ''addlegendentry{a}\<newline>\<newline>'']"
    by (simp add: collection_defs ex_defs)
  from absent_transform_raw_path [OF i m, where c = ex_collab and data = ex_data
      and g = "\<lambda>p t off. ''moved''"]
  have "draw_member ex_collab ex_data ex_scatter (collection_members ex_scatter ! 2) =
     Inr (draw_path ex_collab ex_data ''area''
            (get_draw_options ex_collab ex_data
               \<lparr>obj = CollectionObj ex_scatter, ec = Some ''k'', fc = None, ls = Some ''-'',
                lw = Some ''1'', hatch = None\<rparr>))"
    and "draw_patchcollection (ex_collab\<lparr>transformed := (\<lambda>p t off. ''moved'')\<rparr>) ex_data
           ex_scatter =
         draw_patchcollection ex_collab ex_data ex_scatter"
    by simp_all
  with i m o r show ?thesis
    by blast
qed

subsection \<open>Collections: the offsets of transformed members\<close>

lemma collection_no_TypeError:
  assumes "get_transforms ob \<noteq> [] \<longrightarrow> get_offsets ob \<noteq> []"
  shows "\<forall>m \<in> set (collection_members ob). draw_member c data ob m \<noteq> Inl TypeError"
proof
  fix m
  assume "m \<in> set (collection_members ob)"
  then obtain i where
    m: "m = (cyclic (get_paths ob) i, cyclic (get_edgecolors ob) i,
             cyclic (get_facecolors ob) i, cyclic (get_linestyles ob) i,
             cyclic (get_linewidths ob) i, cyclic (get_transforms ob) i,
             cyclic (get_offsets ob) i)"
    by (rule member_cases)
  show "draw_member c data ob m \<noteq> Inl TypeError"
  proof
    assume "draw_member c data ob m = Inl TypeError"
    then have "cyclic (get_transforms ob) i \<noteq> None \<and> cyclic (get_offsets ob) i = None"
      unfolding m by (blast dest: draw_member_TypeError)
    then have "get_transforms ob \<noteq> [] \<and> get_offsets ob = []"
      by (simp add: cyclic_None)
    with assms show False
      by simp
  qed
qed

lemma draw_patchcollection_no_TypeError:
  assumes "get_transforms ob \<noteq> [] \<longrightarrow> get_offsets ob \<noteq> []"
  shows "draw_patchcollection c data ob \<noteq> Inl TypeError"
proof
  assume "draw_patchcollection c data ob = Inl TypeError"
  then have "collection_loop c data ob (collection_members ob) [] None = Inl TypeError"
    by (simp add: draw_patchcollection_def split: sum.splits prod.splits option.splits)
  then have "\<exists>m \<in> set (collection_members ob). draw_member c data ob m = Inl TypeError"
    by (rule collection_loop_error)
  with collection_no_TypeError [OF assms] show False
    by blast
qed

lemma draw_member_nth_no_offset:
  assumes "i < length (collection_members ob)"
    and "get_transforms ob \<noteq> []" and "get_offsets ob = []"
  shows "draw_member c data ob (collection_members ob ! i) =
     Inl (if get_paths ob = [] then AttributeError else TypeError)"
proof -
  note m = nth_collection_members [OF assms(1)]
  from assms(3) have o: "cyclic (get_offsets ob) i = None"
    by (simp only: cyclic_None)
  note ts = cyclic_Some [OF assms(2), of i]
  show ?thesis
  proof (cases "get_paths ob = []")
    case True
    then have "cyclic (get_paths ob) i = None"
      by (simp only: cyclic_None)
    with True show ?thesis
      unfolding m by (simp add: draw_member_no_path)
  next
    case False
    from cyclic_Some [OF False, of i] ts o False show ?thesis
      unfolding m by (simp add: draw_member_no_offset)
  qed
qed

lemma draw_patchcollection_no_offset:
  assumes "get_transforms ob \<noteq> []" and "get_offsets ob = []"
  shows "draw_patchcollection c data ob =
     Inl (if get_paths ob = [] then AttributeError else TypeError)"
proof -
  have pos: "0 < length (collection_members ob)"
    by (rule collection_members_pos)
  then obtain m ms where c: "collection_members ob = m # ms"
    by (cases "collection_members ob") auto
  then have "collection_members ob ! 0 = m"
    by simp
  with draw_member_nth_no_offset [OF pos assms]
  have "draw_member c data ob m = Inl (if get_paths ob = [] then AttributeError else TypeError)"
    by simp
  then show ?thesis
    by (simp add: draw_patchcollection_def c)
qed

text \<open>
  C10.  The offsets take part in the pairing as they are, so with an empty array of offsets
  every member of the loop is paired with no offset.  A member with a path, a transform and
  an offset has its path composed with the transform and the translation by the offset and
  handed to the path emitter.  When the offsets are non-empty whenever the transforms are,
  no member raises the type error of unpacking an absent offset, and neither does
  \<^verbatim>\<open>draw_patchcollection\<close>.  When there are transforms and no offsets, every member fails
  and so does \<^verbatim>\<open>draw_patchcollection\<close>: with the type error of the unpacking when the
  collection has a path.
\<close>

theorem offsets_precondition:
  "(i < length (collection_members ob) \<and> get_offsets ob = [] \<longrightarrow>
      collection_members ob ! i =
        (cyclic (get_paths ob) i, cyclic (get_edgecolors ob) i,
         cyclic (get_facecolors ob) i, cyclic (get_linestyles ob) i,
         cyclic (get_linewidths ob) i, cyclic (get_transforms ob) i, None))
   \<and> (i < length (collection_members ob) \<and> get_paths ob \<noteq> [] \<and> get_transforms ob \<noteq> [] \<and>
      get_offsets ob \<noteq> [] \<longrightarrow>
      draw_member c data ob (collection_members ob ! i) =
        Inr (draw_path c data
               (transformed c (get_paths ob ! (i mod length (get_paths ob)))
                  (get_transforms ob ! (i mod length (get_transforms ob)))
                  (get_offsets ob ! (i mod length (get_offsets ob))))
               (get_draw_options c data
                  \<lparr>obj = CollectionObj ob, ec = cyclic (get_edgecolors ob) i,
                   fc = cyclic (get_facecolors ob) i, ls = cyclic (get_linestyles ob) i,
                   lw = cyclic (get_linewidths ob) i, hatch = None\<rparr>)))
   \<and> ((get_transforms ob \<noteq> [] \<longrightarrow> get_offsets ob \<noteq> []) \<longrightarrow>
      draw_patchcollection c data ob \<noteq> Inl TypeError \<and>
      (\<forall>m \<in> set (collection_members ob). draw_member c data ob m \<noteq> Inl TypeError))
   \<and> (get_transforms ob \<noteq> [] \<and> get_offsets ob = [] \<longrightarrow>
      draw_patchcollection c data ob =
        Inl (if get_paths ob = [] then AttributeError else TypeError) \<and>
      (i < length (collection_members ob) \<longrightarrow>
         draw_member c data ob (collection_members ob ! i) =
           Inl (if get_paths ob = [] then AttributeError else TypeError)))"
proof (intro conjI impI)
  assume a: "i < length (collection_members ob) \<and> get_offsets ob = []"
  then have "cyclic (get_offsets ob) i = None"
    by (simp add: cyclic_None)
  with a nth_collection_members [of i ob]
  show "collection_members ob ! i =
        (cyclic (get_paths ob) i, cyclic (get_edgecolors ob) i,
         cyclic (get_facecolors ob) i, cyclic (get_linestyles ob) i,
         cyclic (get_linewidths ob) i, cyclic (get_transforms ob) i, None)"
    by simp
next
  assume a: "i < length (collection_members ob) \<and> get_paths ob \<noteq> [] \<and>
      get_transforms ob \<noteq> [] \<and> get_offsets ob \<noteq> []"
  then have i: "i < length (collection_members ob)"
    and p: "get_paths ob \<noteq> []" and t: "get_transforms ob \<noteq> []" and o: "get_offsets ob \<noteq> []"
    by simp_all
  from cyclic_Some [OF p, of i] cyclic_Some [OF t, of i] cyclic_Some [OF o, of i]
  show "draw_member c data ob (collection_members ob ! i) =
        Inr (draw_path c data
               (transformed c (get_paths ob ! (i mod length (get_paths ob)))
                  (get_transforms ob ! (i mod length (get_transforms ob)))
                  (get_offsets ob ! (i mod length (get_offsets ob))))
               (get_draw_options c data
                  \<lparr>obj = CollectionObj ob, ec = cyclic (get_edgecolors ob) i,
                   fc = cyclic (get_facecolors ob) i, ls = cyclic (get_linestyles ob) i,
                   lw = cyclic (get_linewidths ob) i, hatch = None\<rparr>))"
    unfolding nth_collection_members [OF i] by (simp add: draw_member_transformed)
next
  assume "get_transforms ob \<noteq> [] \<longrightarrow> get_offsets ob \<noteq> []"
  then show "draw_patchcollection c data ob \<noteq> Inl TypeError"
    by (rule draw_patchcollection_no_TypeError)
next
  assume "get_transforms ob \<noteq> [] \<longrightarrow> get_offsets ob \<noteq> []"
  then show "\<forall>m \<in> set (collection_members ob). draw_member c data ob m \<noteq> Inl TypeError"
    by (rule collection_no_TypeError)
next
  assume "get_transforms ob \<noteq> [] \<and> get_offsets ob = []"
  then have "get_transforms ob \<noteq> []" and "get_offsets ob = []"
    by simp_all
  then show "draw_patchcollection c data ob =
        Inl (if get_paths ob = [] then AttributeError else TypeError)"
    by (rule draw_patchcollection_no_offset)
next
  assume "get_transforms ob \<noteq> [] \<and> get_offsets ob = []"
    and i: "i < length (collection_members ob)"
  then have "get_transforms ob \<noteq> []" and "get_offsets ob = []"
    by simp_all
  with i show "draw_member c data ob (collection_members ob ! i) =
           Inl (if get_paths ob = [] then AttributeError else TypeError)"
    by (rule draw_member_nth_no_offset)
qed

text \<open>
  The instances: a collection with a transform and no offset raises the type error at its
  first member; a collection with two paths, one transform and one offset composes each
  path with the transform and the offset.
\<close>

theorem offsets_precondition_witness:
  "(0::nat) < length (collection_members ex_no_offsets) \<and>
   get_transforms ex_no_offsets \<noteq> [] \<and> get_offsets ex_no_offsets = [] \<and>
   collection_members ex_no_offsets ! 0 =
     (Some ''line'', Some ''k'', None, Some ''-'', Some ''1'', Some ''T'', None) \<and>
   draw_member ex_collab ex_data ex_no_offsets (collection_members ex_no_offsets ! 0) =
     Inl TypeError \<and>
   draw_patchcollection ex_collab ex_data ex_no_offsets = Inl TypeError \<and>
   (1::nat) < length (collection_members ex_transformed) \<and>
   get_paths ex_transformed \<noteq> [] \<and> get_transforms ex_transformed \<noteq> [] \<and>
   get_offsets ex_transformed \<noteq> [] \<and>
   draw_member ex_collab ex_data ex_transformed (collection_members ex_transformed ! 1) =
     Inr (''path line*T;\<newline>'', [''draw=black''], False) \<and>
   draw_patchcollection ex_collab ex_data ex_transformed \<noteq> Inl TypeError"
proof -
  have a1: "(0::nat) < length (collection_members ex_no_offsets)"
    by (simp add: collection_defs ex_defs)
  have a2: "get_transforms ex_no_offsets \<noteq> []" "get_offsets ex_no_offsets = []"
    "get_paths ex_no_offsets \<noteq> []"
    by (simp_all add: ex_defs)
  have b1: "(1::nat) < length (collection_members ex_transformed)"
    by (simp add: collection_defs ex_defs)
  have b2: "get_paths ex_transformed \<noteq> []" "get_transforms ex_transformed \<noteq> []"
    "get_offsets ex_transformed \<noteq> []"
    by (simp_all add: ex_defs)
  have e: "(if get_paths ex_no_offsets = [] then AttributeError else TypeError) = TypeError"
    using a2 by simp
  note n = offsets_precondition [where ob = ex_no_offsets and i = 0 and c = ex_collab
      and data = ex_data]
  from n a1 a2
  have c1: "collection_members ex_no_offsets ! 0 =
      (cyclic (get_paths ex_no_offsets) 0, cyclic (get_edgecolors ex_no_offsets) 0,
       cyclic (get_facecolors ex_no_offsets) 0, cyclic (get_linestyles ex_no_offsets) 0,
       cyclic (get_linewidths ex_no_offsets) 0, cyclic (get_transforms ex_no_offsets) 0, None)"
    by blast
  from n a1 a2
  have "draw_member ex_collab ex_data ex_no_offsets (collection_members ex_no_offsets ! 0) =
      Inl (if get_paths ex_no_offsets = [] then AttributeError else TypeError)"
    by blast
  then have c2: "draw_member ex_collab ex_data ex_no_offsets
      (collection_members ex_no_offsets ! 0) = Inl TypeError"
    by (simp only: e)
  from n a1 a2
  have "draw_patchcollection ex_collab ex_data ex_no_offsets =
      Inl (if get_paths ex_no_offsets = [] then AttributeError else TypeError)"
    by blast
  then have c3: "draw_patchcollection ex_collab ex_data ex_no_offsets = Inl TypeError"
    by (simp only: e)
  from c1 have c1': "collection_members ex_no_offsets ! 0 =
     (Some ''line'', Some ''k'', None, Some ''-'', Some ''1'', Some ''T'', None)"
    by (simp add: cyclic_def ex_defs)
  note k = offsets_precondition [where ob = ex_transformed and i = 1 and c = ex_collab
      and data = ex_data]
  from k b1 b2
  have d1: "draw_member ex_collab ex_data ex_transformed (collection_members ex_transformed ! 1) =
      Inr (draw_path ex_collab ex_data
             (transformed ex_collab
                (get_paths ex_transformed ! (1 mod length (get_paths ex_transformed)))
                (get_transforms ex_transformed ! (1 mod length (get_transforms ex_transformed)))
                (get_offsets ex_transformed ! (1 mod length (get_offsets ex_transformed))))
             (get_draw_options ex_collab ex_data
                \<lparr>obj = CollectionObj ex_transformed,
                 ec = cyclic (get_edgecolors ex_transformed) 1,
                 fc = cyclic (get_facecolors ex_transformed) 1,
                 ls = cyclic (get_linestyles ex_transformed) 1,
                 lw = cyclic (get_linewidths ex_transformed) 1, hatch = None\<rparr>))"
    by blast
  from k b2
  have d2: "draw_patchcollection ex_collab ex_data ex_transformed \<noteq> Inl TypeError"
    by blast
  from d1 have d1': "draw_member ex_collab ex_data ex_transformed
      (collection_members ex_transformed ! 1) =
     Inr (''path line*T;\<newline>'', [''draw=black''], False)"
    by (simp add: cyclic_def ex_defs)
  from a1 a2 b1 b2 c1' c2 c3 d1' d2 show ?thesis
    by blast
qed

end
